theory Spec2Isabelle
  imports Complex_Main "HOL-Library.AList"
begin

section \<open>Exceptions\<close>

text \<open>
  The exception classes that the modelled code raises or lets escape. \<open>Exception\<close> is the
  plain \<open>Exception\<close> that \<open>check_parameters\<close> raises in place of an \<open>AssertionError\<close>.
\<close>

datatype error =
    AssertionError
  | KeyError
  | ValueError
  | TypeError
  | IndexError
  | AttributeError
  | Exception

section \<open>Visual stimuli (framework/interfaces.py)\<close>

subsection \<open>Frames and generators\<close>

text \<open>
  An image is the list of the pixel values of the numpy array. A frame is the tuple
  \<open>(img, variables)\<close>. A generator is a state of type \<open>'g\<close> together with the function
  \<open>nxt\<close>: \<open>nxt g = None\<close> is \<open>StopIteration\<close>, \<open>nxt g = Some (frame, g')\<close> yields
  \<open>frame\<close> and leaves the generator in state \<open>g'\<close>. An exhausted generator is not advanced,
  so it stays exhausted. The method \<open>frames()\<close> of the child class is the parameter
  \<open>frames\<close>, the state of a newly created generator.
\<close>

type_synonym image = "real list"

type_synonym ('g, 'v) generator = "'g \<Rightarrow> ((image \<times> 'v) \<times> 'g) option"

text \<open>\<open>img.min()\<close> and \<open>img.max()\<close>: numpy raises \<open>ValueError\<close> on an array without elements.\<close>

definition array_min :: "image \<Rightarrow> error + real" where
  "array_min xs = (case xs of [] \<Rightarrow> Inl ValueError | x # r \<Rightarrow> Inr (fold min r x))"

definition array_max :: "image \<Rightarrow> error + real" where
  "array_max xs = (case xs of [] \<Rightarrow> Inl ValueError | x # r \<Rightarrow> Inr (fold max r x))"

subsection \<open>The object\<close>

text \<open>
  \<open>VisualObject\<close> (module \<open>space\<close>) is the base class; its constructor is defined
  in that module, so the object it leaves behind is an argument of
  \<open>VisualStimulus_init\<close>. The constant \<open>TRANSPARENT\<close> of the same module is a parameter
  of \<open>update\<close>.
\<close>

record visual_object =
  location :: "real \<times> real"
  size_in_degrees :: real
  visible :: bool
  zoom_cache :: "(real \<times> image) list"

record stimulus_parameters =
  p_frame_duration :: real
  p_size_in_degrees :: real
  p_max_luminance :: real
  p_location :: "real \<times> real"

record ('g, 'v) visual_stimulus = visual_object +
  frame_duration :: real
  max_luminance :: real
  parameters :: stimulus_parameters
  input :: "nat option"
  frames_iter :: 'g
  img :: "image option"
  variables :: "'v option"

text \<open>
  \<open>update\<close> returns the exception it raises, if any, and the object as the call leaves it:
  the assignments made before an assertion fails stay made.
\<close>

definition update ::
  "real \<Rightarrow> ('g, 'v) generator \<Rightarrow> ('g, 'v) visual_stimulus
     \<Rightarrow> error option \<times> ('g, 'v) visual_stimulus" where
  "update TRANSPARENT nxt self =
     (case nxt (frames_iter self) of
        None \<Rightarrow> (None, self\<lparr>visible := False, zoom_cache := []\<rparr>)
      | Some ((im, vars), g') \<Rightarrow>
          (let self1 = self\<lparr>frames_iter := g', img := Some im, variables := Some vars\<rparr> in
           case array_min im of
             Inl e \<Rightarrow> (Some e, self1)
           | Inr mn \<Rightarrow>
               if \<not> (mn \<ge> 0 \<or> mn = TRANSPARENT) then (Some AssertionError, self1)
               else (case array_max im of
                       Inl e \<Rightarrow> (Some e, self1)
                     | Inr mx \<Rightarrow>
                         if \<not> (mx \<le> max_luminance self1) then (Some AssertionError, self1)
                         else (None, self1\<lparr>zoom_cache := []\<rparr>))))"

text \<open>
  The constructor. The field \<open>frames_iter\<close> is the attribute \<open>_frames\<close>, \<open>zoom_cache\<close> the
  attribute \<open>_zoom_cache\<close>. \<open>vo\<close> is the object after \<open>VisualObject.__init__\<close>. The attributes
  \<open>img\<close> and \<open>variables\<close> do not exist before the first \<open>update\<close>. An exception
  of \<open>update\<close> escapes the constructor, and no object is constructed.
\<close>

definition VisualStimulus_init ::
  "real \<Rightarrow> ('g, 'v) generator \<Rightarrow> 'g \<Rightarrow> visual_object
     \<Rightarrow> real \<Rightarrow> real \<Rightarrow> real \<times> real \<Rightarrow> real \<Rightarrow> error + ('g, 'v) visual_stimulus" where
  "VisualStimulus_init TRANSPARENT nxt frames vo frame_duration' size_in_degrees' location'
       max_luminance' =
     (let self = \<lparr> location = location vo, size_in_degrees = size_in_degrees vo,
                   visible = visible vo, zoom_cache = zoom_cache vo,
                   frame_duration = frame_duration',
                   max_luminance = max_luminance',
                   parameters = \<lparr> p_frame_duration = frame_duration',
                                  p_size_in_degrees = size_in_degrees',
                                  p_max_luminance = max_luminance',
                                  p_location = location' \<rparr>,
                   input = None,
                   frames_iter = frames,
                   img = None,
                   variables = None \<rparr>
      in case update TRANSPARENT nxt self of
           (Some e, _) \<Rightarrow> Inl e
         | (None, self') \<Rightarrow> Inr self')"

definition reset ::
  "real \<Rightarrow> ('g, 'v) generator \<Rightarrow> 'g \<Rightarrow> ('g, 'v) visual_stimulus
     \<Rightarrow> error option \<times> ('g, 'v) visual_stimulus" where
  "reset TRANSPARENT nxt frames self =
     update TRANSPARENT nxt (self\<lparr>visible := True, frames_iter := frames\<rparr>)"

text \<open>\<open>next_frame\<close> returns \<open>[self.img]\<close>; reading \<open>img\<close> before any frame was stored
  raises \<open>AttributeError\<close>.\<close>

definition next_frame ::
  "real \<Rightarrow> ('g, 'v) generator \<Rightarrow> ('g, 'v) visual_stimulus
     \<Rightarrow> (error + image list) \<times> ('g, 'v) visual_stimulus" where
  "next_frame TRANSPARENT nxt self =
     (case update TRANSPARENT nxt self of
        (Some e, self') \<Rightarrow> (Inl e, self')
      | (None, self') \<Rightarrow>
          (case img self' of
             None \<Rightarrow> (Inl AttributeError, self')
           | Some im \<Rightarrow> (Inr [im], self')))"

section \<open>Parametrized objects (framework/interfaces.py)\<close>

text \<open>
  A parameter tree is a \<open>ParameterSet\<close>, a dictionary from names to parameter trees, or
  any other object. In the declared tree (\<open>required_parameters\<close>) the other objects are
  types; in the supplied tree they are values. A dictionary is the list of its items,
  \<open>P[k]\<close> is \<open>map_of P k\<close>, and \<open>P.keys()\<close> is \<open>map fst P\<close>. The built-in
  \<open>isinstance\<close>, applied to a supplied object and a declared type, is a parameter.
\<close>

datatype 'a parameter_tree = ParameterSet "(string \<times> 'a parameter_tree) list" | Other 'a

text \<open>
  The local function \<open>walk\<close> of \<open>check_parameters\<close>; \<open>walk_items\<close> is its loop
  \<open>for k,v in tP.items()\<close>. The argument \<open>section\<close> is only used in the message of the
  \<open>KeyError\<close> and is left out. An \<open>assert\<close> that fails raises \<open>AssertionError\<close>.
\<close>

function walk ::
  "('v parameter_tree \<Rightarrow> 'ty \<Rightarrow> bool) \<Rightarrow> (string \<times> 'ty parameter_tree) list
     \<Rightarrow> (string \<times> 'v parameter_tree) list \<Rightarrow> error + unit"
and walk_items ::
  "('v parameter_tree \<Rightarrow> 'ty \<Rightarrow> bool) \<Rightarrow> (string \<times> 'ty parameter_tree) list
     \<Rightarrow> (string \<times> 'v parameter_tree) list \<Rightarrow> error + unit" where
  "walk isinstance tP P =
     (if set (map fst tP) \<noteq> set (map fst P) then Inl KeyError
      else walk_items isinstance tP P)"
| "walk_items isinstance [] P = Inr ()"
| "walk_items isinstance ((k, ParameterSet v) # items) P =
     (case map_of P k of
        None \<Rightarrow> Inl KeyError
      | Some (Other x) \<Rightarrow> Inl AssertionError
      | Some (ParameterSet Pk) \<Rightarrow>
          (case walk isinstance v Pk of
             Inl e \<Rightarrow> Inl e
           | Inr u \<Rightarrow> walk_items isinstance items P))"
| "walk_items isinstance ((k, Other v) # items) P =
     (case map_of P k of
        None \<Rightarrow> Inl KeyError
      | Some Pk \<Rightarrow>
          if isinstance Pk v then walk_items isinstance items P else Inl AssertionError)"
  by pat_completeness auto
termination
  by (relation "measure (\<lambda>x. case x of
          Inl (i, tP, P) \<Rightarrow> 2 * size_list (size_prod (\<lambda>_. 0) size) tP + 1
        | Inr (i, items, P) \<Rightarrow> 2 * size_list (size_prod (\<lambda>_. 0) size) items)") auto

declare walk.simps [simp del]

text \<open>
  \<open>d.update(e)\<close>: the items of \<open>e\<close> are stored in \<open>d\<close>, replacing the values of the keys
  that \<open>d\<close> has already. \<open>AList.merge d e\<close> stores each item of \<open>e\<close> in \<open>d\<close> with
  \<open>AList.update\<close>; a dictionary holds a key once, so the order in which the items are
  stored makes no difference.
\<close>

definition dict_update :: "('k \<times> 'a) list \<Rightarrow> ('k \<times> 'a) list \<Rightarrow> ('k \<times> 'a) list" where
  "dict_update d e = AList.merge d e"

text \<open>
  The loop of \<open>check_parameters\<close> over \<open>self.__class__.__mro__\<close>. The argument \<open>mro\<close>
  lists, in the order of the method resolution, what \<open>cls.required_parameters\<close> is for
  each class: \<open>None\<close> where \<open>hasattr(cls, 'required_parameters')\<close> is false.
  \<open>as_dict()\<close> and the constructor \<open>ParameterSet(...)\<close> convert between a
  \<open>ParameterSet\<close> and a dictionary with the same items; both are the identity here.
\<close>

definition new_param_dict ::
  "(string \<times> 'ty parameter_tree) list option list \<Rightarrow> (string \<times> 'ty parameter_tree) list" where
  "new_param_dict mro =
     fold (\<lambda>cls d. case cls of
                      None \<Rightarrow> d
                    | Some required_parameters \<Rightarrow> dict_update d required_parameters)
       mro []"

text \<open>
  \<open>check_parameters\<close> raises \<open>Exception\<close> in place of an \<open>AssertionError\<close> of \<open>walk\<close>
  and lets a \<open>KeyError\<close> pass.
\<close>

definition check_parameters ::
  "('v parameter_tree \<Rightarrow> 'ty \<Rightarrow> bool) \<Rightarrow> (string \<times> 'ty parameter_tree) list option list
     \<Rightarrow> (string \<times> 'v parameter_tree) list \<Rightarrow> error + unit" where
  "check_parameters isinstance mro parameters' =
     (case walk isinstance (new_param_dict mro) parameters' of
        Inl AssertionError \<Rightarrow> Inl Exception
      | r \<Rightarrow> r)"

text \<open>The constructor checks the parameters and stores them in \<open>self.parameters\<close>.\<close>

definition MozaikLiteParametrizeObject_init ::
  "('v parameter_tree \<Rightarrow> 'ty \<Rightarrow> bool) \<Rightarrow> (string \<times> 'ty parameter_tree) list option list
     \<Rightarrow> (string \<times> 'v parameter_tree) list \<Rightarrow> error + (string \<times> 'v parameter_tree) list" where
  "MozaikLiteParametrizeObject_init isinstance mro parameters' =
     (case check_parameters isinstance mro parameters' of
        Inl e \<Rightarrow> Inl e
      | Inr u \<Rightarrow> Inr parameters')"

section \<open>Analysis data structures (mozaik/analysis/analysis_data_structures.py)\<close>

subsection \<open>Keyword arguments and declared parameters\<close>

text \<open>
  Every analysis data structure is a \<open>Parameterized\<close> object of the library \<open>param\<close>.
  The constructor of \<open>Parameterized\<close> takes keyword arguments and gives each declared
  parameter of the object the value of the keyword argument of its name, or the default of
  its declaration when there is none: the empty string for a \<open>param.String\<close>, and \<open>[]\<close>
  for \<open>tags\<close>. A \<open>param.String\<close> refuses a value that is not a string and a
  \<open>param.List\<close> one that is not a list, with \<open>ValueError\<close>.

  \<open>**params\<close> is the list of the keyword arguments that the call did not bind to a
  named argument of the function. A call that passes a keyword twice, once by name and
  once in \<open>**params\<close>, raises \<open>TypeError\<close>.
\<close>

datatype kwval = Str string | StrList "string list"

type_synonym kwargs = "(string \<times> kwval) list"

definition call_kwargs :: "kwargs \<Rightarrow> kwargs \<Rightarrow> error + kwargs" where
  "call_kwargs named params =
     (if \<exists>k \<in> set (map fst named). k \<in> set (map fst params) then Inl TypeError
      else Inr (named @ params))"

definition param_String :: "string \<Rightarrow> kwargs \<Rightarrow> error + string" where
  "param_String pname kw =
     (case map_of kw pname of
        None \<Rightarrow> Inr []
      | Some (Str s) \<Rightarrow> Inr s
      | Some (StrList l) \<Rightarrow> Inl ValueError)"

definition param_List :: "string \<Rightarrow> string list \<Rightarrow> kwargs \<Rightarrow> error + string list" where
  "param_List pname dflt kw =
     (case map_of kw pname of
        None \<Rightarrow> Inr dflt
      | Some (StrList l) \<Rightarrow> Inr l
      | Some (Str s) \<Rightarrow> Inl ValueError)"

subsection \<open>AnalysisDataStructure\<close>

record analysis_data_structure =
  "identifier" :: string
  analysis_algorithm :: string
  tags :: "string list"

definition AnalysisDataStructure_init :: "kwargs \<Rightarrow> error + analysis_data_structure" where
  "AnalysisDataStructure_init params =
     (case param_String ''identifier'' params of
        Inl e \<Rightarrow> Inl e
      | Inr i \<Rightarrow>
     (case param_String ''analysis_algorithm'' params of
        Inl e \<Rightarrow> Inl e
      | Inr a \<Rightarrow>
     (case param_List ''tags'' [] params of
        Inl e \<Rightarrow> Inl e
      | Inr t \<Rightarrow> Inr \<lparr> identifier = i, analysis_algorithm = a, tags = t \<rparr>)))"

subsection \<open>Stimulus identifiers\<close>

text \<open>
  \<open>parse_stimuls_id\<close> comes from \<open>mozaik.stimuli.stimulus_generator\<close>. It turns the
  string of a stimulus into an object with a list \<open>parameters\<close>, and \<open>str\<close> turns such an
  object into a string again. Both are parameters of the functions below, and so is
  \<open>float\<close>, applied to one parameter: \<open>None\<close> stands for its \<open>ValueError\<close>.
\<close>

datatype parsed_stimulus_id = ParsedStimulusId (name: string) (parameters: "string list")

text \<open>
  A Python float is a number, an infinity or NaN; rounding plays no part in what follows.
  \<open>float_lt\<close> is \<open><\<close>, \<open>float_le\<close> is \<open><=\<close> and \<open>float_ge\<close> is \<open>>=\<close>: every
  comparison with NaN is false. The integer \<open>0\<close> of the source compares as
  \<open>Finite 0\<close>.
\<close>

datatype pyfloat = Finite real | PlusInf | MinusInf | NaN

fun float_lt :: "pyfloat \<Rightarrow> pyfloat \<Rightarrow> bool" where
  "float_lt NaN b = False"
| "float_lt a NaN = False"
| "float_lt (Finite a) (Finite b) = (a < b)"
| "float_lt a MinusInf = False"
| "float_lt MinusInf b = True"
| "float_lt PlusInf b = False"
| "float_lt a PlusInf = True"

definition float_le :: "pyfloat \<Rightarrow> pyfloat \<Rightarrow> bool" where
  "float_le a b \<longleftrightarrow> float_lt a b \<or> (a = b \<and> a \<noteq> NaN)"

definition float_ge :: "pyfloat \<Rightarrow> pyfloat \<Rightarrow> bool" where
  "float_ge a b \<longleftrightarrow> float_le b a"

text \<open>The position that the index \<open>i\<close> denotes in a Python list; a negative index counts
  from the end, and \<open>None\<close> stands for \<open>IndexError\<close>.\<close>

definition py_index :: "'a list \<Rightarrow> int \<Rightarrow> nat option" where
  "py_index xs i =
     (let n = int (length xs); j = (if i < 0 then i + n else i)
      in if 0 \<le> j \<and> j < n then Some (nat j) else None)"

subsection \<open>TuningCurve\<close>

record ('v, 'u) tuning_curve = analysis_data_structure +
  sheet_name :: string
  "values" :: "'v list"
  stimuli_ids :: "string list"
  parameter_index :: int
  y_axis_name :: string
  y_axis_units :: 'u

definition TuningCurve_init ::
  "'v list \<Rightarrow> string list \<Rightarrow> int \<Rightarrow> string \<Rightarrow> 'u \<Rightarrow> kwargs \<Rightarrow> error + ('v, 'u) tuning_curve" where
  "TuningCurve_init values' stimuli_ids' parameter_index' y_axis_name' y_axis_units' params =
     (if \<exists>k \<in> set [''values'', ''stimuli_ids'', ''parameter_index'', ''y_axis_name'',
                     ''y_axis_units'']. k \<in> set (map fst params) then Inl TypeError
      else
     (case call_kwargs [(''identifier'', Str ''TuningCurve'')] params of
        Inl e \<Rightarrow> Inl e
      | Inr kw \<Rightarrow>
     (case AnalysisDataStructure_init kw of
        Inl e \<Rightarrow> Inl e
      | Inr self \<Rightarrow>
     (case param_String ''sheet_name'' kw of
        Inl e \<Rightarrow> Inl e
      | Inr sn \<Rightarrow>
          Inr \<lparr> identifier = identifier self,
                analysis_algorithm = analysis_algorithm self,
                tags = tags self,
                sheet_name = sn,
                values = values',
                stimuli_ids = stimuli_ids',
                parameter_index = parameter_index',
                y_axis_name = y_axis_name',
                y_axis_units = y_axis_units' \<rparr>))))"

text \<open>
  The first loop of \<open>to_dictonary_of_tc_parametrization\<close>, over
  \<open>zip(self.values, self.stimuli_ids)\<close>. The dictionary \<open>self.d\<close> is the list of its
  items; \<open>a.append(v)\<close> on a list held by the dictionary is an update of its entry.
\<close>

fun tc_loop ::
  "(string \<Rightarrow> parsed_stimulus_id) \<Rightarrow> (parsed_stimulus_id \<Rightarrow> string) \<Rightarrow> (string \<Rightarrow> pyfloat option)
     \<Rightarrow> int \<Rightarrow> ('v \<times> string) list \<Rightarrow> (string \<times> 'v list \<times> pyfloat list) list
     \<Rightarrow> error + (string \<times> 'v list \<times> pyfloat list) list" where
  "tc_loop parse str float idx [] d = Inr d"
| "tc_loop parse str float idx ((v, s) # rest) d =
     (let s1 = parse s in
      case py_index (parameters s1) idx of
        None \<Rightarrow> Inl IndexError
      | Some j \<Rightarrow>
          (case float (parameters s1 ! j) of
             None \<Rightarrow> Inl ValueError
           | Some val \<Rightarrow>
               (let s2 = ParsedStimulusId (name s1) ((parameters s1)[j := ''x''])
                in case map_of d (str s2) of
                     Some (a, b) \<Rightarrow>
                       tc_loop parse str float idx rest
                         (AList.update (str s2) (a @ [v], b @ [val]) d)
                   | None \<Rightarrow>
                       tc_loop parse str float idx rest
                         (AList.update (str s2) ([v], [val]) d))))"

text \<open>\<open>numpy.array(a)\<close> is the array of the elements of the list \<open>a\<close>, in their order.\<close>

definition numpy_array :: "'a list \<Rightarrow> 'a list" where
  "numpy_array a = a"

text \<open>The method stores the dictionary in \<open>self.d\<close> and returns it; the result is that
  dictionary.\<close>

definition to_dictonary_of_tc_parametrization ::
  "(string \<Rightarrow> parsed_stimulus_id) \<Rightarrow> (parsed_stimulus_id \<Rightarrow> string) \<Rightarrow> (string \<Rightarrow> pyfloat option)
     \<Rightarrow> ('v, 'u, 'z) tuning_curve_scheme \<Rightarrow> error + (string \<times> 'v list \<times> pyfloat list) list" where
  "to_dictonary_of_tc_parametrization parse str float self =
     (case tc_loop parse str float (parameter_index self)
             (zip (values self) (stimuli_ids self)) [] of
        Inl e \<Rightarrow> Inl e
      | Inr d \<Rightarrow> Inr (map (\<lambda>(k, (a, b)). (k, (numpy_array a, b))) d))"

subsection \<open>CyclicTuningCurve\<close>

record ('v, 'u) cyclic_tuning_curve = "('v, 'u) tuning_curve" +
  period :: pyfloat

text \<open>The loop of the constructor over \<open>self.stimuli_ids\<close>; the result is the exception
  that it raises, if any.\<close>

fun cyclic_loop ::
  "(string \<Rightarrow> parsed_stimulus_id) \<Rightarrow> (string \<Rightarrow> pyfloat option) \<Rightarrow> int \<Rightarrow> pyfloat \<Rightarrow> string list
     \<Rightarrow> error option" where
  "cyclic_loop parse float idx period' [] = None"
| "cyclic_loop parse float idx period' (s # rest) =
     (let s1 = parse s in
      case py_index (parameters s1) idx of
        None \<Rightarrow> Some IndexError
      | Some j \<Rightarrow>
          (case float (parameters s1 ! j) of
             None \<Rightarrow> Some ValueError
           | Some v \<Rightarrow>
               if float_lt v (Finite 0) \<or> float_ge v period' then Some ValueError
               else cyclic_loop parse float idx period' rest))"

definition CyclicTuningCurve_init ::
  "(string \<Rightarrow> parsed_stimulus_id) \<Rightarrow> (string \<Rightarrow> pyfloat option) \<Rightarrow> pyfloat
     \<Rightarrow> 'v list \<Rightarrow> string list \<Rightarrow> int \<Rightarrow> string \<Rightarrow> 'u \<Rightarrow> kwargs
     \<Rightarrow> error + ('v, 'u) cyclic_tuning_curve" where
  "CyclicTuningCurve_init parse float period' values' stimuli_ids' parameter_index'
       y_axis_name' y_axis_units' params =
     (case TuningCurve_init values' stimuli_ids' parameter_index' y_axis_name' y_axis_units'
             params of
        Inl e \<Rightarrow> Inl e
      | Inr tc \<Rightarrow>
          (let self = \<lparr> identifier = ''CyclicTuningCurve'',
                         analysis_algorithm = analysis_algorithm tc,
                         tags = tags tc,
                         sheet_name = sheet_name tc,
                         values = values tc,
                         stimuli_ids = stimuli_ids tc,
                         parameter_index = parameter_index tc,
                         y_axis_name = y_axis_name tc,
                         y_axis_units = y_axis_units tc,
                         period = period' \<rparr>
           in case cyclic_loop parse float (parameter_index self) (period self)
                     (stimuli_ids self) of
                Some e \<Rightarrow> Inl e
              | None \<Rightarrow> Inr self))"

subsection \<open>PerNeuronValue\<close>

record ('v, 'u) per_neuron_value = analysis_data_structure +
  value_name :: string
  sheet_name :: string
  value_units :: 'u
  period :: "pyfloat option"
  "values" :: 'v

text \<open>The argument \<open>tags\<close> is a named argument of the constructor, so it is never part of
  \<open>**params\<close>; the body does not mention it.\<close>

definition PerNeuronValue_init ::
  "'v \<Rightarrow> 'u \<Rightarrow> string list \<Rightarrow> pyfloat option \<Rightarrow> kwargs \<Rightarrow> error + ('v, 'u) per_neuron_value" where
  "PerNeuronValue_init values' value_units' tags' period' params =
     (if \<exists>k \<in> set [''values'', ''value_units'', ''tags'', ''period''].
           k \<in> set (map fst params) then Inl TypeError
      else
     (case call_kwargs [(''identifier'', Str ''PerNeuronValue'')] params of
        Inl e \<Rightarrow> Inl e
      | Inr kw \<Rightarrow>
     (case AnalysisDataStructure_init kw of
        Inl e \<Rightarrow> Inl e
      | Inr self \<Rightarrow>
     (case param_String ''value_name'' kw of
        Inl e \<Rightarrow> Inl e
      | Inr vn \<Rightarrow>
     (case param_String ''sheet_name'' kw of
        Inl e \<Rightarrow> Inl e
      | Inr sn \<Rightarrow>
          Inr \<lparr> identifier = identifier self,
                analysis_algorithm = analysis_algorithm self,
                tags = tags self,
                value_name = vn,
                sheet_name = sn,
                value_units = value_units',
                period = period',
                values = values' \<rparr>)))))"

subsection \<open>AnalysisDataStructure1D and the signal lists\<close>

record 'u analysis_data_structure_1d = analysis_data_structure +
  x_axis_name :: string
  y_axis_name :: string
  x_axis_units :: 'u
  y_axis_units :: 'u

definition AnalysisDataStructure1D_init ::
  "'u \<Rightarrow> 'u \<Rightarrow> kwargs \<Rightarrow> error + 'u analysis_data_structure_1d" where
  "AnalysisDataStructure1D_init x_axis_units' y_axis_units' params =
     (if \<exists>k \<in> set [''x_axis_units'', ''y_axis_units'']. k \<in> set (map fst params)
      then Inl TypeError
      else
     (case AnalysisDataStructure_init params of
        Inl e \<Rightarrow> Inl e
      | Inr self \<Rightarrow>
     (case param_String ''x_axis_name'' params of
        Inl e \<Rightarrow> Inl e
      | Inr xn \<Rightarrow>
     (case param_String ''y_axis_name'' params of
        Inl e \<Rightarrow> Inl e
      | Inr yn \<Rightarrow>
          Inr \<lparr> identifier = identifier self,
                analysis_algorithm = analysis_algorithm self,
                tags = tags self,
                x_axis_name = xn,
                y_axis_name = yn,
                x_axis_units = x_axis_units',
                y_axis_units = y_axis_units' \<rparr>))))"

record ('s, 'u) analog_signal_list = "'u analysis_data_structure_1d" +
  sheet_name :: string
  asl :: "'s list"
  indexes :: "int list"

definition AnalogSignalList_init ::
  "'s list \<Rightarrow> int list \<Rightarrow> 'u \<Rightarrow> 'u \<Rightarrow> kwargs \<Rightarrow> error + ('s, 'u) analog_signal_list" where
  "AnalogSignalList_init asl' indexes' x_axis_units' y_axis_units' params =
     (if \<exists>k \<in> set [''asl'', ''indexes'', ''x_axis_units'', ''y_axis_units''].
           k \<in> set (map fst params) then Inl TypeError
      else
     (case call_kwargs [(''identifier'', Str ''AnalogSignalList'')] params of
        Inl e \<Rightarrow> Inl e
      | Inr kw \<Rightarrow>
     (case AnalysisDataStructure1D_init x_axis_units' y_axis_units' kw of
        Inl e \<Rightarrow> Inl e
      | Inr self \<Rightarrow>
     (case param_String ''sheet_name'' kw of
        Inl e \<Rightarrow> Inl e
      | Inr sn \<Rightarrow>
          Inr \<lparr> identifier = identifier self,
                analysis_algorithm = analysis_algorithm self,
                tags = tags self,
                x_axis_name = x_axis_name self,
                y_axis_name = y_axis_name self,
                x_axis_units = x_axis_units self,
                y_axis_units = y_axis_units self,
                sheet_name = sn,
                asl = asl',
                indexes = indexes' \<rparr>))))"

text \<open>An analog signal, as far as the constructor of \<open>ConductanceSignalList\<close> reads it:
  \<open>units\<close> and \<open>sampling_rate.units\<close>.\<close>

record 'u analog_signal =
  units :: 'u
  sampling_rate_units :: 'u

record 'u conductance_signal_list = "'u analysis_data_structure_1d" +
  sheet_name :: string
  e_con :: "'u analog_signal list"
  i_con :: "'u analog_signal list"
  indexes :: "int list"

definition ConductanceSignalList_init ::
  "'u analog_signal list \<Rightarrow> 'u analog_signal list \<Rightarrow> int list \<Rightarrow> kwargs
     \<Rightarrow> error + 'u conductance_signal_list" where
  "ConductanceSignalList_init e_con' i_con' indexes' params =
     (if \<exists>k \<in> set [''e_con'', ''i_con'', ''indexes'']. k \<in> set (map fst params)
      then Inl TypeError
      else
     (case e_con' of
        [] \<Rightarrow> Inl IndexError
      | e0 # _ \<Rightarrow>
     (case i_con' of
        [] \<Rightarrow> Inl IndexError
      | i0 # _ \<Rightarrow>
     (if units e0 \<noteq> units i0 then Inl AssertionError
      else
     (case call_kwargs [(''x_axis_name'', Str ''time''), (''y_axis_name'', Str ''conductance''),
                        (''identifier'', Str ''ConductanceSignalList'')] params of
        Inl e \<Rightarrow> Inl e
      | Inr kw \<Rightarrow>
     (case AnalysisDataStructure1D_init (sampling_rate_units e0) (units e0) kw of
        Inl e \<Rightarrow> Inl e
      | Inr self \<Rightarrow>
     (case param_String ''sheet_name'' kw of
        Inl e \<Rightarrow> Inl e
      | Inr sn \<Rightarrow>
          Inr \<lparr> identifier = identifier self,
                analysis_algorithm = analysis_algorithm self,
                tags = tags self,
                x_axis_name = x_axis_name self,
                y_axis_name = y_axis_name self,
                x_axis_units = x_axis_units self,
                y_axis_units = y_axis_units self,
                sheet_name = sn,
                e_con = e_con',
                i_con = i_con',
                indexes = indexes' \<rparr>)))))))"

section \<open>Notions used to state the properties\<close>

subsection \<open>Frame streams\<close>

text \<open>A caller that calls \<open>update\<close> \<open>n\<close> times and stops at the first exception.\<close>

fun run_updates ::
  "real \<Rightarrow> ('g, 'v) generator \<Rightarrow> nat \<Rightarrow> ('g, 'v) visual_stimulus
     \<Rightarrow> error option \<times> ('g, 'v) visual_stimulus" where
  "run_updates T nxt 0 self = (None, self)"
| "run_updates T nxt (Suc n) self =
     (case update T nxt self of
        (Some e, self') \<Rightarrow> (Some e, self')
      | (None, self') \<Rightarrow> run_updates T nxt n self')"

text \<open>\<open>gen_nth nxt g n\<close> is the frame that generator \<open>g\<close> yields at position \<open>n\<close>
  (counted from 0), \<open>gen_after nxt g n\<close> the generator after exactly \<open>n\<close> frames were
  taken from it; both are \<open>None\<close> when the generator yields fewer frames.\<close>

fun gen_nth :: "('g, 'v) generator \<Rightarrow> 'g \<Rightarrow> nat \<Rightarrow> (image \<times> 'v) option" where
  "gen_nth nxt g 0 = map_option fst (nxt g)"
| "gen_nth nxt g (Suc n) = (case nxt g of None \<Rightarrow> None | Some (_, g') \<Rightarrow> gen_nth nxt g' n)"

fun gen_after :: "('g, 'v) generator \<Rightarrow> 'g \<Rightarrow> nat \<Rightarrow> 'g option" where
  "gen_after nxt g 0 = Some g"
| "gen_after nxt g (Suc n) = (case nxt g of None \<Rightarrow> None | Some (_, g') \<Rightarrow> gen_after nxt g' n)"

text \<open>The luminance range of a frame, as the two assertions of \<open>update\<close> state it.\<close>

definition frame_in_range :: "real \<Rightarrow> real \<Rightarrow> image \<Rightarrow> bool" where
  "frame_in_range TRANSPARENT max_lum im \<longleftrightarrow>
     (Min (set im) \<ge> 0 \<or> Min (set im) = TRANSPARENT) \<and> Max (set im) \<le> max_lum"

text \<open>The object on which the constructor calls \<open>update\<close>.\<close>

definition init_self ::
  "'g \<Rightarrow> visual_object \<Rightarrow> real \<Rightarrow> real \<Rightarrow> real \<times> real \<Rightarrow> real \<Rightarrow> ('g, 'v) visual_stimulus" where
  "init_self frames vo fd sz loc ml =
     \<lparr> location = location vo, size_in_degrees = size_in_degrees vo,
       visible = visible vo, zoom_cache = zoom_cache vo,
       frame_duration = fd, max_luminance = ml,
       parameters = \<lparr> p_frame_duration = fd, p_size_in_degrees = sz,
                      p_max_luminance = ml, p_location = loc \<rparr>,
       input = None, frames_iter = frames, img = None, variables = None \<rparr>"

text \<open>Two objects that agree on the generator, the current frame and the maximal luminance
  behave alike under \<open>update\<close>.\<close>

definition same_stream :: "('g, 'v) visual_stimulus \<Rightarrow> ('g, 'v) visual_stimulus \<Rightarrow> bool" where
  "same_stream a b \<longleftrightarrow>
     frames_iter a = frames_iter b \<and> img a = img b \<and> variables a = variables b
     \<and> max_luminance a = max_luminance b"

subsection \<open>A finite generator, for concrete runs\<close>

text \<open>A generator that yields the elements of a list: its state is the list of the frames
  not yet yielded.\<close>

definition list_next :: "((image \<times> 'v) list, 'v) generator" where
  "list_next fs = (case fs of [] \<Rightarrow> None | f # r \<Rightarrow> Some (f, r))"

definition vo0 :: visual_object where
  "vo0 = \<lparr> location = (0, 0), size_in_degrees = 10, visible = True, zoom_cache = [] \<rparr>"

definition two_frames :: "(image \<times> int) list" where
  "two_frames = [([0, 1/2], 0), ([1, 1/4], 1)]"

subsection \<open>Matching of parameter trees\<close>

text \<open>
  The supplied tree matches the declared tree: at every level the key sets are equal,
  every declared nested \<open>ParameterSet\<close> meets a supplied \<open>ParameterSet\<close> that matches
  it, and every declared type meets a supplied object that is an instance of it.
\<close>

fun matches :: "('v parameter_tree \<Rightarrow> 'ty \<Rightarrow> bool) \<Rightarrow> 'ty parameter_tree \<Rightarrow> 'v parameter_tree \<Rightarrow> bool" where
  "matches isinstance (Other ty) x = isinstance x ty"
| "matches isinstance (ParameterSet tP) (Other x) = False"
| "matches isinstance (ParameterSet tP) (ParameterSet P) =
     (set (map fst tP) = set (map fst P)
      \<and> (\<forall>(k, v) \<in> set tP. \<exists>x. map_of P k = Some x \<and> matches isinstance v x))"

text \<open>
  The two ways to fail. \<open>keys_agree\<close>: wherever a declared \<open>ParameterSet\<close> meets a supplied
  one, their key sets are equal. \<open>types_agree\<close>: every declared \<open>ParameterSet\<close> meets a
  supplied \<open>ParameterSet\<close> and every declared type a supplied instance of it, for
  the keys that the supplied tree has.
\<close>

fun keys_agree :: "'ty parameter_tree \<Rightarrow> 'v parameter_tree \<Rightarrow> bool" where
  "keys_agree (ParameterSet tP) (ParameterSet P) =
     (set (map fst tP) = set (map fst P)
      \<and> (\<forall>(k, v) \<in> set tP. \<forall>x. map_of P k = Some x \<longrightarrow> keys_agree v x))"
| "keys_agree (ParameterSet tP) (Other x) = True"
| "keys_agree (Other ty) x = True"

fun types_agree :: "('v parameter_tree \<Rightarrow> 'ty \<Rightarrow> bool) \<Rightarrow> 'ty parameter_tree \<Rightarrow> 'v parameter_tree \<Rightarrow> bool" where
  "types_agree isinstance (Other ty) x = isinstance x ty"
| "types_agree isinstance (ParameterSet tP) (Other x) = False"
| "types_agree isinstance (ParameterSet tP) (ParameterSet P) =
     (\<forall>(k, v) \<in> set tP. \<forall>x. map_of P k = Some x \<longrightarrow> types_agree isinstance v x)"

text \<open>The dictionaries of the classes of the method resolution order that have the
  attribute \<open>required_parameters\<close>.\<close>

definition declarations :: "'d option list \<Rightarrow> 'd list" where
  "declarations mro = concat (map (\<lambda>cls. case cls of None \<Rightarrow> [] | Some d \<Rightarrow> [d]) mro)"

text \<open>Types and values for concrete runs: a type is its name, a value is the name of its
  class.\<close>

definition isinstance_ex :: "string parameter_tree \<Rightarrow> string \<Rightarrow> bool" where
  "isinstance_ex x ty = (case x of Other t \<Rightarrow> t = ty | ParameterSet P \<Rightarrow> ty = ''ParameterSet'')"

text \<open>A subclass that declares \<open>name\<close> as \<open>int\<close>, its parent that declares it as \<open>str\<close>,
  the base class with an empty \<open>required_parameters\<close>, and \<open>object\<close>.\<close>

definition mro_ex :: "(string \<times> string parameter_tree) list option list" where
  "mro_ex = [Some [(''name'', Other ''int''), (''cell'', ParameterSet [(''model'', Other ''str'')])],
             Some [(''name'', Other ''str'')], Some [], None]"

subsection \<open>Tuning curves\<close>

text \<open>\<open>xvalue\<close> is \<open>float(parse_stimuls_id(s).parameters[parameter_index])\<close>, \<open>None\<close> when the
  index is out of range or the parameter is not a number. \<open>rekey\<close> is the string of the
  stimulus \<open>s\<close> with the parameter at \<open>parameter_index\<close> replaced by \<open>'x'\<close>.\<close>

definition xvalue ::
  "(string \<Rightarrow> parsed_stimulus_id) \<Rightarrow> (string \<Rightarrow> pyfloat option) \<Rightarrow> int \<Rightarrow> string \<Rightarrow> pyfloat option" where
  "xvalue parse float idx s =
     (case py_index (parameters (parse s)) idx of
        None \<Rightarrow> None
      | Some j \<Rightarrow> float (parameters (parse s) ! j))"

definition rekey ::
  "(string \<Rightarrow> parsed_stimulus_id) \<Rightarrow> (parsed_stimulus_id \<Rightarrow> string) \<Rightarrow> int \<Rightarrow> string \<Rightarrow> string" where
  "rekey parse str idx s =
     (case py_index (parameters (parse s)) idx of
        None \<Rightarrow> str (parse s)
      | Some j \<Rightarrow> str (ParsedStimulusId (name (parse s)) ((parameters (parse s))[j := ''x''])))"

text \<open>The group of the key \<open>k\<close>: the values, and the floats of the parameter, of the pairs
  \<open>(value, stimulus)\<close> whose stimulus has the key \<open>k\<close>, in the order of the pairs.\<close>

definition tc_group ::
  "(string \<Rightarrow> parsed_stimulus_id) \<Rightarrow> (parsed_stimulus_id \<Rightarrow> string) \<Rightarrow> (string \<Rightarrow> pyfloat option)
     \<Rightarrow> int \<Rightarrow> ('v \<times> string) list \<Rightarrow> string \<Rightarrow> 'v list \<times> pyfloat list" where
  "tc_group parse str float idx pairs k =
     (map fst (filter (\<lambda>p. rekey parse str idx (snd p) = k) pairs),
      map (\<lambda>p. the (xvalue parse float idx (snd p)))
        (filter (\<lambda>p. rekey parse str idx (snd p) = k) pairs))"

text \<open>What an entry of the dictionary becomes when a group is appended to it.\<close>

definition add_group ::
  "('v list \<times> pyfloat list) option \<Rightarrow> 'v list \<times> pyfloat list \<Rightarrow> ('v list \<times> pyfloat list) option" where
  "add_group old g =
     (case old of
        None \<Rightarrow> if fst g = [] then None else Some g
      | Some (a, b) \<Rightarrow> Some (a @ fst g, b @ snd g))"

text \<open>The number of values held by a dictionary.\<close>

definition total_levels :: "(string \<times> 'v list \<times> pyfloat list) list \<Rightarrow> nat" where
  "total_levels d = sum_list (map (\<lambda>(k, (levels, xaxis)). length levels) d)"

subsection \<open>Stimulus identifiers for concrete runs\<close>

text \<open>A stimulus identifier of the form \<open>name,p0,p1,...\<close> with one character per
  parameter: \<open>parse_ex\<close> takes the first character as the name and every further one as a
  parameter, \<open>str_ex\<close> puts them together again, and \<open>float_ex\<close> reads a digit.\<close>

definition parse_ex :: "string \<Rightarrow> parsed_stimulus_id" where
  "parse_ex s = ParsedStimulusId (take 1 s) (map (\<lambda>c. [c]) (drop 1 s))"

definition str_ex :: "parsed_stimulus_id \<Rightarrow> string" where
  "str_ex s = name s @ concat (parameters s)"

definition float_ex :: "string \<Rightarrow> pyfloat option" where
  "float_ex p =
     (if p = ''0'' then Some (Finite 0) else if p = ''1'' then Some (Finite 1)
      else if p = ''2'' then Some (Finite 2) else if p = ''3'' then Some (Finite 3)
      else None)"

text \<open>A stimulus identifier that is its only parameter. \<open>float_lit\<close> reads the literals
  \<open>'nan'\<close>, \<open>'inf'\<close> and \<open>'0.5'\<close> as \<open>float\<close> does, and refuses \<open>'a'\<close> and every other
  string.\<close>

definition parse_one :: "string \<Rightarrow> parsed_stimulus_id" where
  "parse_one s = ParsedStimulusId ''S'' [s]"

definition float_lit :: "string \<Rightarrow> pyfloat option" where
  "float_lit p =
     (if p = ''nan'' then Some NaN else if p = ''inf'' then Some PlusInf
      else if p = ''0.5'' then Some (Finite (1/2)) else None)"

text \<open>A tuning curve over three stimuli; the fourth value has no stimulus.\<close>

definition tc_ex :: "(int, string) tuning_curve" where
  "tc_ex = projr (TuningCurve_init [10, 20, 30, 40] [''G01'', ''G12'', ''G21''] 0
                    ''y'' ''Hz'' [])"

section \<open>Properties of the frame stream\<close>

lemma fold_min_Min: "fold min r (x::real) = Min (set (x # r))"
  by (simp only: Min.set_eq_fold)

lemma fold_max_Max: "fold max r (x::real) = Max (set (x # r))"
  by (simp only: Max.set_eq_fold)

lemma array_min_Min: "im \<noteq> [] \<Longrightarrow> array_min im = Inr (Min (set im))"
  unfolding array_min_def by (cases im) (simp_all only: fold_min_Min list.case, simp)

lemma array_max_Max: "im \<noteq> [] \<Longrightarrow> array_max im = Inr (Max (set im))"
  unfolding array_max_def by (cases im) (simp_all only: fold_max_Max list.case, simp)

lemma update_frame:
  assumes "nxt (frames_iter self) = Some ((im, vars), g')" and "im \<noteq> []"
  shows "update T nxt self =
           (if frame_in_range T (max_luminance self) im
            then (None, self\<lparr>frames_iter := g', img := Some im, variables := Some vars,
                             zoom_cache := []\<rparr>)
            else (Some AssertionError,
                  self\<lparr>frames_iter := g', img := Some im, variables := Some vars\<rparr>))"
  using assms
  by (auto simp: update_def frame_in_range_def array_min_Min array_max_Max Let_def)

lemma update_exhausted:
  "nxt (frames_iter self) = None \<Longrightarrow>
     update T nxt self = (None, self\<lparr>visible := False, zoom_cache := []\<rparr>)"
  by (simp add: update_def)


lemma update_yielded:
  assumes "nxt (frames_iter self) = Some ((im, vars), g')"
  shows "img (snd (update T nxt self)) = Some im
       \<and> variables (snd (update T nxt self)) = Some vars
       \<and> frames_iter (snd (update T nxt self)) = g'"
  using assms by (simp add: update_def Let_def split: sum.splits)

lemma update_max_luminance: "max_luminance (snd (update T nxt self)) = max_luminance self"
  by (simp add: update_def Let_def split: option.splits sum.splits prod.splits)

lemma update_same_stream:
  assumes "same_stream a b"
  shows "fst (update T nxt a) = fst (update T nxt b)
       \<and> same_stream (snd (update T nxt a)) (snd (update T nxt b))"
  using assms
  by (simp add: same_stream_def update_def Let_def split: option.splits sum.splits prod.splits)

lemma run_updates_same_stream:
  "same_stream a b \<Longrightarrow>
     fst (run_updates T nxt n a) = fst (run_updates T nxt n b)
     \<and> same_stream (snd (run_updates T nxt n a)) (snd (run_updates T nxt n b))"
proof (induction n arbitrary: a b)
  case 0
  then show ?case by simp
next
  case (Suc n)
  obtain ea a' where a: "update T nxt a = (ea, a')" by (cases "update T nxt a")
  obtain eb b' where b: "update T nxt b = (eb, b')" by (cases "update T nxt b")
  from update_same_stream [where T = T and nxt = nxt, OF Suc.prems] a b
  have e: "ea = eb" and s: "same_stream a' b'" by simp_all
  show ?case
  proof (cases ea)
    case None
    with a b e Suc.IH [OF s] show ?thesis by simp
  next
    case (Some err)
    with a b e s show ?thesis by auto
  qed
qed

lemma run_updates_nth:
  "run_updates T nxt (Suc k) self = (None, self') \<Longrightarrow>
   gen_nth nxt (frames_iter self) k = Some (im, vars) \<Longrightarrow>
     img self' = Some im \<and> variables self' = Some vars
     \<and> gen_after nxt (frames_iter self) (Suc k) = Some (frames_iter self')"
proof (induction k arbitrary: self)
  case 0
  from "0.prems"(2) obtain g' where nx: "nxt (frames_iter self) = Some ((im, vars), g')"
    by (cases "nxt (frames_iter self)") auto
  from "0.prems"(1) have "self' = snd (update T nxt self)"
    by (auto split: prod.splits option.splits)
  with update_yielded [where self = self and T = T and nxt = nxt, OF nx] nx show ?case by simp
next
  case (Suc k)
  from Suc.prems(2) obtain fr g' where nx: "nxt (frames_iter self) = Some (fr, g')"
    and nth: "gen_nth nxt g' k = Some (im, vars)"
    by (cases "nxt (frames_iter self)") auto
  obtain self1 where u: "update T nxt self = (None, self1)"
    and r: "run_updates T nxt (Suc k) self1 = (None, self')"
    using Suc.prems(1) by (auto split: prod.splits option.splits)
  from nx obtain im0 vars0 where nx': "nxt (frames_iter self) = Some ((im0, vars0), g')"
    by (cases fr) auto
  from update_yielded [where self = self and T = T and nxt = nxt, OF nx'] u
  have g: "frames_iter self1 = g'" by simp
  from Suc.IH [OF r] nth g
  have "img self' = Some im \<and> variables self' = Some vars
        \<and> gen_after nxt g' (Suc k) = Some (frames_iter self')" by simp
  with nx show ?case by simp
qed

lemma init_update:
  "VisualStimulus_init T nxt frames vo fd sz loc ml =
     (case update T nxt (init_self frames vo fd sz loc ml) of
        (Some e, _) \<Rightarrow> Inl e | (None, self') \<Rightarrow> Inr self')"
  by (simp add: VisualStimulus_init_def init_self_def Let_def)

lemma init_Inr_update:
  "VisualStimulus_init T nxt frames vo fd sz loc ml = Inr s0 \<longleftrightarrow>
     update T nxt (init_self frames vo fd sz loc ml) = (None, s0)"
  by (auto simp: init_update split: prod.splits option.splits)


subsection \<open>Validation of every frame\<close>

text \<open>
  C2. Each newly produced frame is validated against the luminance range. When the
  generator yields the frame \<open>(im, vars)\<close>, \<open>update\<close> returns normally iff the minimum of
  \<open>im\<close> is at least 0 or equals \<open>TRANSPARENT\<close>, and the maximum of \<open>im\<close> is at most
  \<open>max_luminance\<close>; otherwise it raises \<open>AssertionError\<close>. The constructor applies the
  same check to the first frame: it constructs an object iff that frame is in range, and
  raises \<open>AssertionError\<close> otherwise.
\<close>

theorem update_validates_frame:
  fixes nxt :: "('g, 'v) generator" and self :: "('g, 'v) visual_stimulus"
  assumes "nxt g = Some ((im, vars), g')" and "im \<noteq> []"
  shows "(frames_iter self = g \<longrightarrow>
            fst (update T nxt self) =
              (if (Min (set im) \<ge> 0 \<or> Min (set im) = T) \<and> Max (set im) \<le> max_luminance self
               then None else Some AssertionError))
       \<and> (case VisualStimulus_init T nxt g vo fd sz loc ml of
            Inr s0 \<Rightarrow> (Min (set im) \<ge> 0 \<or> Min (set im) = T) \<and> Max (set im) \<le> ml
          | Inl e \<Rightarrow> e = AssertionError
                     \<and> \<not> ((Min (set im) \<ge> 0 \<or> Min (set im) = T) \<and> Max (set im) \<le> ml))"
proof -
  have u: "frames_iter self = g \<longrightarrow>
            fst (update T nxt self) =
              (if (Min (set im) \<ge> 0 \<or> Min (set im) = T) \<and> Max (set im) \<le> max_luminance self
               then None else Some AssertionError)"
    using assms
    by (auto simp: update_frame [where nxt = nxt and g' = g' and vars = vars]
                   frame_in_range_def)
  have fi: "frames_iter (init_self g vo fd sz loc ml :: ('g, 'v) visual_stimulus) = g"
    and ml: "max_luminance (init_self g vo fd sz loc ml :: ('g, 'v) visual_stimulus) = ml"
    by (simp_all add: init_self_def)
  from assms fi have nx: "nxt (frames_iter (init_self g vo fd sz loc ml :: ('g, 'v) visual_stimulus))
       = Some ((im, vars), g')" by simp
  have i: "(case VisualStimulus_init T nxt g vo fd sz loc ml of
            Inr s0 \<Rightarrow> (Min (set im) \<ge> 0 \<or> Min (set im) = T) \<and> Max (set im) \<le> ml
          | Inl e \<Rightarrow> e = AssertionError
                     \<and> \<not> ((Min (set im) \<ge> 0 \<or> Min (set im) = T) \<and> Max (set im) \<le> ml))"
    unfolding init_update update_frame [where nxt = nxt, OF nx assms(2)] ml
    by (simp add: frame_in_range_def)
  from u i show ?thesis by blast
qed

theorem update_validates_frame_witness:
  "list_next two_frames = Some (([0, 1/2], 0), [([1, 1/4], 1)])
   \<and> [0, 1/2] \<noteq> ([] :: image)
   \<and> fst (update (- 1) list_next (init_self two_frames vo0 40 10 (0, 0) 1)) = None
   \<and> VisualStimulus_init (- 1) list_next two_frames vo0 40 10 (0, 0) (1/4)
       = Inl AssertionError"
proof -
  have h: "list_next two_frames = Some (([0, 1/2], 0), [([1, 1/4], 1)])"
    by (simp add: list_next_def two_frames_def)
  have n: "[0, 1/2] \<noteq> ([] :: image)" by simp
  have f: "frames_iter (init_self two_frames vo0 40 10 (0, 0) 1
             :: ((image \<times> int) list, int) visual_stimulus) = two_frames"
    and m: "max_luminance (init_self two_frames vo0 40 10 (0, 0) 1
             :: ((image \<times> int) list, int) visual_stimulus) = 1"
    by (simp_all add: init_self_def)
  from update_validates_frame [where nxt = list_next and g = two_frames
      and self = "init_self two_frames vo0 40 10 (0, 0) 1" and T = "- 1" and vo = vo0
      and fd = 40 and sz = 10 and loc = "(0, 0)" and ml = "1/4", OF h n] f m h n
  show ?thesis by (auto split: sum.splits)
qed

subsection \<open>Exhaustion\<close>

text \<open>
  C9. When the frame generator is exhausted, \<open>update\<close> raises nothing: it sets \<open>visible\<close>
  to \<open>False\<close> and clears the zoom cache; \<open>img\<close>, \<open>variables\<close> and every other field
  keep their values.
\<close>

theorem update_on_exhausted_generator:
  assumes "nxt (frames_iter self) = None"
  shows "update T nxt self = (None, self\<lparr>visible := False, zoom_cache := []\<rparr>)
       \<and> img (snd (update T nxt self)) = img self
       \<and> variables (snd (update T nxt self)) = variables self"
  using assms by (simp add: update_def)

theorem update_on_exhausted_generator_witness:
  "list_next (frames_iter (init_self [] vo0 40 10 (0, 0) 1 :: ((image \<times> int) list, int) visual_stimulus)) = None
   \<and> update (- 1) list_next (init_self [] vo0 40 10 (0, 0) 1 :: ((image \<times> int) list, int) visual_stimulus)
       = (None, (init_self [] vo0 40 10 (0, 0) 1)\<lparr>visible := False, zoom_cache := []\<rparr>)"
proof -
  have h: "list_next (frames_iter (init_self [] vo0 40 10 (0, 0) 1
             :: ((image \<times> int) list, int) visual_stimulus)) = None"
    by (simp add: init_self_def list_next_def)
  from update_on_exhausted_generator [where nxt = list_next and T = "- 1", OF h] h
  show ?thesis by simp
qed


subsection \<open>One frame per call\<close>

lemma update_yielded_alike:
  fixes a b :: "('g, 'v) visual_stimulus"
  assumes "nxt (frames_iter a) = Some ((im, vars), g')"
    and "frames_iter b = frames_iter a" and "max_luminance b = max_luminance a"
  shows "fst (update T nxt b) = fst (update T nxt a)
       \<and> same_stream (snd (update T nxt b)) (snd (update T nxt a))"
  using assms
  by (simp add: same_stream_def update_def Let_def split: sum.splits)

text \<open>
  C6. Frame production is lazy and one at a time. The constructor takes exactly the
  first frame from the generator of \<open>frames()\<close> and each later \<open>update\<close> exactly one
  more: after the constructor and \<open>n\<close> calls of \<open>update\<close>, the exposed \<open>img\<close> and
  \<open>variables\<close> are those of the frame at position \<open>n\<close> (counted from 0, the
  \<open>(n+1)\<close>-th frame), and the generator held by the object is the fresh generator
  advanced by exactly \<open>n + 1\<close> frames. \<open>next_frame\<close> changes the object as one
  \<open>update\<close> does.
\<close>

theorem frames_taken_one_per_update:
  fixes nxt :: "('g, 'v) generator" and self :: "('g, 'v) visual_stimulus"
  assumes "VisualStimulus_init T nxt frames vo fd sz loc ml = Inr s0"
    and "run_updates T nxt n s0 = (None, self)"
    and "gen_nth nxt frames n = Some (im, vars)"
  shows "img self = Some im \<and> variables self = Some vars
       \<and> gen_after nxt frames (Suc n) = Some (frames_iter self)
       \<and> snd (next_frame T nxt self) = snd (update T nxt self)"
proof -
  let ?i = "init_self frames vo fd sz loc ml :: ('g, 'v) visual_stimulus"
  from assms(1) have u: "update T nxt ?i = (None, s0)" by (simp add: init_Inr_update)
  with assms(2) have r: "run_updates T nxt (Suc n) ?i = (None, self)" by simp
  have f: "frames_iter ?i = frames" by (simp add: init_self_def)
  from run_updates_nth [OF r] assms(3) f
  have "img self = Some im \<and> variables self = Some vars
        \<and> gen_after nxt frames (Suc n) = Some (frames_iter self)" by simp
  moreover have "snd (next_frame T nxt self) = snd (update T nxt self)"
    by (simp add: next_frame_def split: prod.splits option.splits)
  ultimately show ?thesis by blast
qed

lemma update_two_frames_0:
  "update (- 1) list_next (init_self two_frames vo0 40 10 (0, 0) 1) =
     (None, (init_self two_frames vo0 40 10 (0, 0) 1)
              \<lparr>frames_iter := [([1, 1/4], 1)], img := Some [0, 1/2], variables := Some 0,
               zoom_cache := []\<rparr>)"
  by (simp add: update_def list_next_def two_frames_def init_self_def array_min_def
        array_max_def Let_def)

lemma update_two_frames_1:
  "update (- 1) list_next
     ((init_self two_frames vo0 40 10 (0, 0) 1)
        \<lparr>frames_iter := [([1, 1/4], 1)], img := Some [0, 1/2], variables := Some 0,
         zoom_cache := []\<rparr>) =
     (None, (init_self two_frames vo0 40 10 (0, 0) 1)
              \<lparr>frames_iter := [], img := Some [1, 1/4], variables := Some 1,
               zoom_cache := []\<rparr>)"
  by (simp add: update_def list_next_def two_frames_def init_self_def array_min_def
        array_max_def Let_def)

theorem frames_taken_one_per_update_witness:
  "VisualStimulus_init (- 1) list_next two_frames vo0 40 10 (0, 0) 1 =
     Inr ((init_self two_frames vo0 40 10 (0, 0) 1)
            \<lparr>frames_iter := [([1, 1/4], 1)], img := Some [0, 1/2], variables := Some 0,
             zoom_cache := []\<rparr>)
   \<and> run_updates (- 1) list_next (Suc 0)
       ((init_self two_frames vo0 40 10 (0, 0) 1)
            \<lparr>frames_iter := [([1, 1/4], 1)], img := Some [0, 1/2], variables := Some 0,
             zoom_cache := []\<rparr>) =
       (None, (init_self two_frames vo0 40 10 (0, 0) 1)
              \<lparr>frames_iter := [], img := Some [1, 1/4], variables := Some 1,
               zoom_cache := []\<rparr>)
   \<and> gen_nth list_next two_frames (Suc 0) = Some ([1, 1/4], 1)
   \<and> gen_after list_next two_frames (Suc (Suc 0)) = Some []"
proof -
  have h1: "VisualStimulus_init (- 1) list_next two_frames vo0 40 10 (0, 0) 1 =
     Inr ((init_self two_frames vo0 40 10 (0, 0) 1)
            \<lparr>frames_iter := [([1, 1/4], 1)], img := Some [0, 1/2], variables := Some 0,
             zoom_cache := []\<rparr>)"
    by (simp add: init_update update_two_frames_0)
  have h2: "run_updates (- 1) list_next (Suc 0)
       ((init_self two_frames vo0 40 10 (0, 0) 1)
            \<lparr>frames_iter := [([1, 1/4], 1)], img := Some [0, 1/2], variables := Some 0,
             zoom_cache := []\<rparr>) =
       (None, (init_self two_frames vo0 40 10 (0, 0) 1)
              \<lparr>frames_iter := [], img := Some [1, 1/4], variables := Some 1,
               zoom_cache := []\<rparr>)"
    by (simp add: update_two_frames_1)
  have h3: "gen_nth list_next two_frames (Suc 0) = Some ([1, 1/4], 1)"
    by (simp add: list_next_def two_frames_def)
  from frames_taken_one_per_update [OF h1 h2 h3] h1 h2 h3 show ?thesis by simp
qed

subsection \<open>Restart\<close>

text \<open>
  C4. The frame stream is restartable. \<open>frames\<close> is the generator that every call of
  \<open>frames()\<close> creates, and it yields at least one frame. For an object constructed with
  it, in any later state in which \<open>max_luminance\<close> still has its value, \<open>reset\<close> returns
  normally, \<open>visible\<close> is \<open>True\<close>, the generator is the fresh one advanced by the first
  frame, \<open>img\<close> and \<open>variables\<close> are those of the first frame as they were after
  construction, and any number of calls of \<open>update\<close> gives the same outcome, the same
  \<open>img\<close> and \<open>variables\<close> and the same generator as after construction.
\<close>

theorem reset_restarts_frames:
  fixes nxt :: "('g, 'v) generator" and self :: "('g, 'v) visual_stimulus"
  assumes "VisualStimulus_init T nxt frames vo fd sz loc ml = Inr s0"
    and "nxt frames = Some ((im, vars), g')"
    and "max_luminance self = ml"
  shows "\<exists>s'. reset T nxt frames self = (None, s')
       \<and> visible s' = True \<and> zoom_cache s' = []
       \<and> frames_iter s' = g' \<and> img s' = Some im \<and> variables s' = Some vars
       \<and> frames_iter s0 = g' \<and> img s0 = Some im \<and> variables s0 = Some vars
       \<and> (\<forall>n. fst (run_updates T nxt n s') = fst (run_updates T nxt n s0)
              \<and> img (snd (run_updates T nxt n s')) = img (snd (run_updates T nxt n s0))
              \<and> variables (snd (run_updates T nxt n s'))
                  = variables (snd (run_updates T nxt n s0))
              \<and> frames_iter (snd (run_updates T nxt n s'))
                  = frames_iter (snd (run_updates T nxt n s0)))"
proof -
  let ?i = "init_self frames vo fd sz loc ml :: ('g, 'v) visual_stimulus"
  let ?r = "self\<lparr>visible := True, frames_iter := frames\<rparr>"
  obtain e s' where rs: "reset T nxt frames self = (e, s')"
    by (cases "reset T nxt frames self")
  then have ur: "update T nxt ?r = (e, s')" by (simp add: reset_def)
  from assms(1) have ui: "update T nxt ?i = (None, s0)" by (simp add: init_Inr_update)
  have nx: "nxt (frames_iter ?i) = Some ((im, vars), g')"
    using assms(2) by (simp add: init_self_def)
  have "frames_iter ?r = frames_iter ?i" and "max_luminance ?r = max_luminance ?i"
    using assms(3) by (simp_all add: init_self_def)
  from update_yielded_alike [where a = ?i and b = ?r and nxt = nxt and T = T, OF nx this] ur ui
  have e: "e = None" and ss: "same_stream s' s0" by simp_all
  from update_yielded [where self = ?i and T = T and nxt = nxt, OF nx] ui
  have s0: "frames_iter s0 = g' \<and> img s0 = Some im \<and> variables s0 = Some vars" by simp
  with ss have s': "frames_iter s' = g' \<and> img s' = Some im \<and> variables s' = Some vars"
    by (simp add: same_stream_def)
  have nxr: "nxt (frames_iter ?r) = Some ((im, vars), g')" using assms(2) by simp
  have vz: "visible s' = True \<and> zoom_cache s' = []"
    using ur e nxr by (auto simp: update_def Let_def split: sum.splits if_splits)
  have "\<forall>n. fst (run_updates T nxt n s') = fst (run_updates T nxt n s0)
          \<and> same_stream (snd (run_updates T nxt n s')) (snd (run_updates T nxt n s0))"
    using run_updates_same_stream [OF ss] by blast
  with rs e s0 s' vz show ?thesis by (simp add: same_stream_def)
qed

theorem reset_restarts_frames_witness:
  "VisualStimulus_init (- 1) list_next two_frames vo0 40 10 (0, 0) 1 =
     Inr ((init_self two_frames vo0 40 10 (0, 0) 1)
            \<lparr>frames_iter := [([1, 1/4], 1)], img := Some [0, 1/2], variables := Some 0,
             zoom_cache := []\<rparr>)
   \<and> list_next two_frames = Some (([0, 1/2], 0), [([1, 1/4], 1)])
   \<and> (\<exists>s'. reset (- 1) list_next two_frames
              ((init_self two_frames vo0 40 10 (0, 0) 1)
                 \<lparr>frames_iter := [], img := Some [1, 1/4], variables := Some 1,
                  visible := False\<rparr>) = (None, s')
           \<and> visible s' \<and> frames_iter s' = [([1, 1/4], 1)] \<and> img s' = Some [0, 1/2]
           \<and> variables s' = Some 0)"
proof -
  have h1: "VisualStimulus_init (- 1) list_next two_frames vo0 40 10 (0, 0) 1 =
     Inr ((init_self two_frames vo0 40 10 (0, 0) 1)
            \<lparr>frames_iter := [([1, 1/4], 1)], img := Some [0, 1/2], variables := Some 0,
             zoom_cache := []\<rparr>)"
    by (simp add: init_update update_two_frames_0)
  have h2: "list_next two_frames = Some (([0, 1/2], 0), [([1, 1/4], 1)])"
    by (simp add: list_next_def two_frames_def)
  have h3: "max_luminance ((init_self two_frames vo0 40 10 (0, 0) 1)
                 \<lparr>frames_iter := [], img := Some [1, 1/4], variables := Some (1::int),
                  visible := False\<rparr>) = 1"
    by (simp add: init_self_def)
  from reset_restarts_frames [OF h1 h2 h3] h1 h2 show ?thesis by blast
qed

section \<open>Properties of the parameter check\<close>

lemma map_of_keys: "map_of P k = None \<longleftrightarrow> k \<notin> set (map fst P)"
  by (simp add: map_of_eq_None_iff)

lemma walk_ok:
  "(walk isinstance tP P = Inr ()) = matches isinstance (ParameterSet tP) (ParameterSet P)"
  "(walk_items isinstance items P' = Inr ()) =
     (\<forall>(k, v) \<in> set items. \<exists>x. map_of P' k = Some x \<and> matches isinstance v x)"
proof (induction isinstance tP P and isinstance items P' rule: walk_walk_items.induct)
  case (1 isinstance tP P)
  then show ?case by (auto simp: walk.simps)
next
  case (2 isinstance P)
  then show ?case by simp
next
  case (3 isinstance k v items P)
  show ?case
  proof (cases "map_of P k")
    case None
    then show ?thesis by simp
  next
    case (Some x)
    show ?thesis
    proof (cases x)
      case (ParameterSet Pk)
      with Some 3 show ?thesis by (cases "walk isinstance v Pk") auto
    next
      case (Other y)
      with Some show ?thesis by simp
    qed
  qed
next
  case (4 isinstance k v items P)
  then show ?case by (cases "map_of P k") auto
qed

lemma matches_split:
  "matches isinstance t x \<longleftrightarrow> keys_agree t x \<and> types_agree isinstance t x"
proof (induction isinstance t x rule: matches.induct)
  case (3 isinstance tP P)
  have IH: "\<And>k v x. (k, v) \<in> set tP \<Longrightarrow>
              matches isinstance v x = (keys_agree v x \<and> types_agree isinstance v x)"
    using "3.IH" by blast
  show ?case
  proof (cases "set (map fst tP) = set (map fst P)")
    case True
    have ex: "\<exists>x. map_of P k = Some x" if "(k, v) \<in> set tP" for k v
    proof -
      from that True have "k \<in> set (map fst P)" by force
      then show ?thesis by (cases "map_of P k") (auto simp: map_of_keys)
    qed
    have m: "matches isinstance (ParameterSet tP) (ParameterSet P) \<longleftrightarrow>
          (\<forall>k v. (k, v) \<in> set tP \<longrightarrow> (\<exists>x. map_of P k = Some x \<and> matches isinstance v x))"
      using True by auto
    have k: "keys_agree (ParameterSet tP) (ParameterSet P) \<longleftrightarrow>
          (\<forall>k v x. (k, v) \<in> set tP \<longrightarrow> map_of P k = Some x \<longrightarrow> keys_agree v x)"
      using True by auto
    have t: "types_agree isinstance (ParameterSet tP) (ParameterSet P) \<longleftrightarrow>
          (\<forall>k v x. (k, v) \<in> set tP \<longrightarrow> map_of P k = Some x \<longrightarrow> types_agree isinstance v x)"
      by auto
    show ?thesis unfolding m k t
    proof
      assume L: "\<forall>k v. (k, v) \<in> set tP \<longrightarrow>
                   (\<exists>x. map_of P k = Some x \<and> matches isinstance v x)"
      have "matches isinstance v x" if "(k, v) \<in> set tP" and "map_of P k = Some x" for k v x
      proof -
        from L that(1) obtain x' where "map_of P k = Some x'" and "matches isinstance v x'"
          by blast
        with that(2) show ?thesis by simp
      qed
      with IH show "(\<forall>k v x. (k, v) \<in> set tP \<longrightarrow> map_of P k = Some x \<longrightarrow> keys_agree v x)
          \<and> (\<forall>k v x. (k, v) \<in> set tP \<longrightarrow> map_of P k = Some x
                \<longrightarrow> types_agree isinstance v x)"
        by blast
    next
      assume R: "(\<forall>k v x. (k, v) \<in> set tP \<longrightarrow> map_of P k = Some x \<longrightarrow> keys_agree v x)
          \<and> (\<forall>k v x. (k, v) \<in> set tP \<longrightarrow> map_of P k = Some x
                \<longrightarrow> types_agree isinstance v x)"
      show "\<forall>k v. (k, v) \<in> set tP \<longrightarrow>
                   (\<exists>x. map_of P k = Some x \<and> matches isinstance v x)"
      proof (intro allI impI)
        fix k v
        assume kv: "(k, v) \<in> set tP"
        from ex [OF kv] obtain x where x: "map_of P k = Some x" by blast
        with R kv have "keys_agree v x" and "types_agree isinstance v x" by blast+
        with IH [OF kv] have "matches isinstance v x" by simp
        with x show "\<exists>x. map_of P k = Some x \<and> matches isinstance v x" by blast
      qed
    qed
  next
    case False
    then show ?thesis by simp
  qed
qed simp_all

lemma walk_error:
  "walk isinstance tP P = Inl e \<Longrightarrow>
     (e = KeyError \<and> \<not> keys_agree (ParameterSet tP) (ParameterSet P))
     \<or> (e = AssertionError \<and> \<not> types_agree isinstance (ParameterSet tP) (ParameterSet P))"
  "walk_items isinstance items P' = Inl e \<Longrightarrow>
     (e = KeyError \<and> (\<exists>k v. (k, v) \<in> set items \<and> (map_of P' k = None
                        \<or> (\<exists>x. map_of P' k = Some x \<and> \<not> keys_agree v x))))
     \<or> (e = AssertionError
         \<and> (\<exists>k v x. (k, v) \<in> set items \<and> map_of P' k = Some x
                     \<and> \<not> types_agree isinstance v x))"
proof (induction isinstance tP P and isinstance items P' rule: walk_walk_items.induct)
  case (1 isinstance tP P)
  show ?case
  proof (cases "set (map fst tP) = set (map fst P)")
    case True
    have "\<And>k v. (k, v) \<in> set tP \<Longrightarrow> map_of P k \<noteq> None"
    proof -
      fix k v assume "(k, v) \<in> set tP"
      then have "k \<in> set (map fst P)" using True by force
      then show "map_of P k \<noteq> None" by (simp add: map_of_keys)
    qed
    with True 1 show ?thesis by (simp add: walk.simps; blast)
  next
    case False
    with 1 show ?thesis by (simp add: walk.simps)
  qed
next
  case (2 isinstance P)
  then show ?case by simp
next
  case (3 isinstance k v items P)
  show ?case
  proof (cases "map_of P k")
    case None
    with "3.prems" show ?thesis by auto
  next
    case (Some x)
    show ?thesis
    proof (cases x)
      case (ParameterSet Pk)
      show ?thesis
      proof (cases "walk isinstance v Pk")
        case (Inl e')
        with Some ParameterSet "3.prems" have "e = e'" by simp
        with "3.IH"(1) [OF Some ParameterSet] Inl
        have d: "(e = KeyError \<and> \<not> keys_agree (ParameterSet v) (ParameterSet Pk))
              \<or> (e = AssertionError
                  \<and> \<not> types_agree isinstance (ParameterSet v) (ParameterSet Pk))"
          by simp
        moreover have "(k, ParameterSet v) \<in> set ((k, ParameterSet v) # items)" by simp
        moreover from Some ParameterSet have "map_of P k = Some (ParameterSet Pk)" by simp
        ultimately show ?thesis by blast
      next
        case (Inr u)
        with Some ParameterSet "3.prems" have "walk_items isinstance items P = Inl e" by simp
        moreover have "\<And>a. a \<in> set items \<Longrightarrow> a \<in> set ((k, ParameterSet v) # items)" by simp
        ultimately show ?thesis using "3.IH"(2) [OF Some ParameterSet Inr] by blast
      qed
    next
      case (Other y)
      with Some "3.prems" have "e = AssertionError" by simp
      moreover have "(k, ParameterSet v) \<in> set ((k, ParameterSet v) # items)" by simp
      moreover have "\<not> types_agree isinstance (ParameterSet v) (Other y)" by simp
      moreover from Some Other have "map_of P k = Some (Other y)" by simp
      ultimately show ?thesis by blast
    qed
  qed
next
  case (4 isinstance k v items P)
  show ?case
  proof (cases "map_of P k")
    case None
    with "4.prems" show ?thesis by auto
  next
    case (Some x)
    show ?thesis
    proof (cases "isinstance x v")
      case True
      with Some "4.prems" have "walk_items isinstance items P = Inl e" by simp
      moreover have "\<And>a. a \<in> set items \<Longrightarrow> a \<in> set ((k, Other v) # items)" by simp
      ultimately show ?thesis using "4.IH" [OF Some True] by blast
    next
      case False
      with Some "4.prems" have "e = AssertionError" by simp
      moreover have "(k, Other v) \<in> set ((k, Other v) # items)" by simp
      moreover from False have "\<not> types_agree isinstance (Other v) x" by simp
      ultimately show ?thesis using Some by blast
    qed
  qed
qed


lemma check_parameters_cases:
  "check_parameters isinstance mro parameters' =
     (case walk isinstance (new_param_dict mro) parameters' of
        Inr u \<Rightarrow> Inr ()
      | Inl e \<Rightarrow> if e = AssertionError then Inl Exception else Inl e)"
  by (simp add: check_parameters_def split: sum.splits error.splits)

text \<open>
  C1. \<open>check_parameters\<close> raises on mismatch and only on mismatch: it returns normally
  iff the supplied tree matches the declared tree. A mismatch is a difference of key sets
  or a mismatch of types. A \<open>KeyError\<close> is raised only when some key sets differ and an
  \<open>Exception\<close> only when some type does not fit; so a tree whose only mismatches are
  differences of key sets raises \<open>KeyError\<close>, and a tree whose only mismatches are
  mismatches of types raises \<open>Exception\<close>. Nothing else is raised.
\<close>

theorem check_parameters_raises_iff_mismatch:
  "(check_parameters isinstance mro parameters' = Inr ()
      \<longleftrightarrow> matches isinstance (ParameterSet (new_param_dict mro)) (ParameterSet parameters'))
   \<and> (matches isinstance (ParameterSet (new_param_dict mro)) (ParameterSet parameters')
      \<longleftrightarrow> keys_agree (ParameterSet (new_param_dict mro)) (ParameterSet parameters')
          \<and> types_agree isinstance (ParameterSet (new_param_dict mro)) (ParameterSet parameters'))
   \<and> (check_parameters isinstance mro parameters' = Inl KeyError
      \<longrightarrow> \<not> keys_agree (ParameterSet (new_param_dict mro)) (ParameterSet parameters'))
   \<and> (check_parameters isinstance mro parameters' = Inl Exception
      \<longrightarrow> \<not> types_agree isinstance (ParameterSet (new_param_dict mro)) (ParameterSet parameters'))
   \<and> (\<not> keys_agree (ParameterSet (new_param_dict mro)) (ParameterSet parameters')
        \<and> types_agree isinstance (ParameterSet (new_param_dict mro)) (ParameterSet parameters')
      \<longrightarrow> check_parameters isinstance mro parameters' = Inl KeyError)
   \<and> (keys_agree (ParameterSet (new_param_dict mro)) (ParameterSet parameters')
        \<and> \<not> types_agree isinstance (ParameterSet (new_param_dict mro)) (ParameterSet parameters')
      \<longrightarrow> check_parameters isinstance mro parameters' = Inl Exception)"
proof -
  let ?tP = "new_param_dict mro"
  let ?c = "check_parameters isinstance mro parameters'"
  let ?K = "keys_agree (ParameterSet ?tP) (ParameterSet parameters')"
  let ?T = "types_agree isinstance (ParameterSet ?tP) (ParameterSet parameters')"
  let ?M = "matches isinstance (ParameterSet ?tP) (ParameterSet parameters')"
  have ok: "?c = Inr () \<longleftrightarrow> ?M"
    using walk_ok(1) [of isinstance ?tP parameters']
    by (auto simp: check_parameters_cases split: sum.splits)
  have sp: "?M \<longleftrightarrow> ?K \<and> ?T" by (rule matches_split)
  have err: "(e = KeyError \<and> \<not> ?K) \<or> (e = AssertionError \<and> \<not> ?T)"
    if "walk isinstance ?tP parameters' = Inl e" for e
    using walk_error(1) [OF that] .
  have ke: "?c = Inl KeyError \<longrightarrow> \<not> ?K"
    using err by (auto simp: check_parameters_cases split: sum.splits if_splits)
  have ex: "?c = Inl Exception \<longrightarrow> \<not> ?T"
    using err by (auto simp: check_parameters_cases split: sum.splits if_splits)
  have tri: "?c = Inr () \<or> ?c = Inl KeyError \<or> ?c = Inl Exception"
    using err by (auto simp: check_parameters_cases split: sum.splits if_splits)
  from ok sp ke ex tri show ?thesis by blast
qed

theorem check_parameters_raises_iff_mismatch_witness:
  "check_parameters isinstance_ex mro_ex
      [(''cell'', ParameterSet [(''modl'', Other ''str'')]), (''name'', Other ''str'')]
     = Inl KeyError
   \<and> \<not> keys_agree (ParameterSet (new_param_dict mro_ex))
         (ParameterSet [(''cell'', ParameterSet [(''modl'', Other ''str'')]),
                        (''name'', Other ''str'')])
   \<and> check_parameters isinstance_ex mro_ex
      [(''cell'', ParameterSet [(''model'', Other ''str'')]), (''name'', Other ''int'')]
     = Inl Exception
   \<and> \<not> types_agree isinstance_ex (ParameterSet (new_param_dict mro_ex))
         (ParameterSet [(''cell'', ParameterSet [(''model'', Other ''str'')]),
                        (''name'', Other ''int'')])
   \<and> check_parameters isinstance_ex mro_ex
      [(''cell'', ParameterSet [(''model'', Other ''str'')]), (''name'', Other ''str'')]
     = Inr ()
   \<and> matches isinstance_ex (ParameterSet (new_param_dict mro_ex))
         (ParameterSet [(''cell'', ParameterSet [(''model'', Other ''str'')]),
                        (''name'', Other ''str'')])"
proof -
  have k: "check_parameters isinstance_ex mro_ex
      [(''cell'', ParameterSet [(''modl'', Other ''str'')]), (''name'', Other ''str'')]
     = Inl KeyError" by code_simp
  have e: "check_parameters isinstance_ex mro_ex
      [(''cell'', ParameterSet [(''model'', Other ''str'')]), (''name'', Other ''int'')]
     = Inl Exception" by code_simp
  have r: "check_parameters isinstance_ex mro_ex
      [(''cell'', ParameterSet [(''model'', Other ''str'')]), (''name'', Other ''str'')]
     = Inr ()" by code_simp
  from k e r
    check_parameters_raises_iff_mismatch [where isinstance = isinstance_ex and mro = mro_ex
      and parameters' = "[(''cell'', ParameterSet [(''modl'', Other ''str'')]),
                         (''name'', Other ''str'')]"]
    check_parameters_raises_iff_mismatch [where isinstance = isinstance_ex and mro = mro_ex
      and parameters' = "[(''cell'', ParameterSet [(''model'', Other ''str'')]),
                         (''name'', Other ''int'')]"]
    check_parameters_raises_iff_mismatch [where isinstance = isinstance_ex and mro = mro_ex
      and parameters' = "[(''cell'', ParameterSet [(''model'', Other ''str'')]),
                         (''name'', Other ''str'')]"]
  show ?thesis by blast
qed

lemma map_of_dict_update: "map_of (dict_update d e) = map_of d ++ map_of e"
  by (simp add: dict_update_def merge_conv')

lemma map_of_fold_mro:
  "map_of (fold (\<lambda>cls d. case cls of None \<Rightarrow> d | Some rp \<Rightarrow> dict_update d rp) mro d0) =
     foldl (++) (map_of d0) (map map_of (declarations mro))"
proof (induction mro arbitrary: d0)
  case Nil
  then show ?case by (simp add: declarations_def)
next
  case (Cons cls mro)
  then show ?case by (cases cls) (simp_all add: declarations_def map_of_dict_update)
qed

lemma fold_mro_not_declared:
  assumes "\<forall>d. Some d \<in> set later \<longrightarrow> k \<notin> fst ` set d"
  shows "map_of (fold (\<lambda>cls d. case cls of None \<Rightarrow> d | Some rp \<Rightarrow> dict_update d rp) later d0) k
           = map_of d0 k"
  using assms
proof (induction later arbitrary: d0)
  case Nil
  then show ?case by simp
next
  case (Cons cls later)
  show ?case
  proof (cases cls)
    case None
    with Cons show ?thesis by simp
  next
    case (Some rp)
    with Cons.prems have "k \<notin> fst ` set rp" by simp
    then have "map_of rp k = None" by (simp add: map_of_eq_None_iff)
    then have "map_of (dict_update d0 rp) k = map_of d0 k"
      by (simp add: map_of_dict_update map_add_def)
    with Cons Some show ?thesis by simp
  qed
qed

text \<open>
  C8. The declared tree that \<open>check_parameters\<close> validates against is the merge of the
  \<open>required_parameters\<close> of the classes along the method resolution order, taken in that
  order, the most derived class first. So a later class overrides an earlier one: when a
  class \<open>anc\<close> of the order declares the name \<open>k\<close> and no class after it does, the merged
  tree has the declaration of \<open>anc\<close> for \<open>k\<close>, whatever the classes before it, its
  subclasses, declare.
\<close>

theorem ancestor_declaration_overrides:
  "map_of (new_param_dict mro) = foldl (++) Map.empty (map map_of (declarations mro))
   \<and> (mro = earlier @ Some anc # later \<and> k \<in> fst ` set anc
        \<and> (\<forall>d. Some d \<in> set later \<longrightarrow> k \<notin> fst ` set d)
      \<longrightarrow> map_of (new_param_dict mro) k = map_of anc k)"
proof -
  have a: "map_of (new_param_dict mro) = foldl (++) Map.empty (map map_of (declarations mro))"
    using map_of_fold_mro [of mro "[]"] by (simp add: new_param_dict_def)
  have b: "map_of (new_param_dict mro) k = map_of anc k"
    if m: "mro = earlier @ Some anc # later" and k: "k \<in> fst ` set anc"
      and n: "\<forall>d. Some d \<in> set later \<longrightarrow> k \<notin> fst ` set d"
  proof -
    let ?f = "\<lambda>cls d. case cls of None \<Rightarrow> d | Some rp \<Rightarrow> dict_update d rp"
    from k obtain y where y: "map_of anc k = Some y"
      by (cases "map_of anc k") (auto simp: map_of_eq_None_iff)
    have "new_param_dict mro = fold ?f later (dict_update (fold ?f earlier []) anc)"
      by (simp add: new_param_dict_def m)
    then have "map_of (new_param_dict mro) k = map_of (dict_update (fold ?f earlier []) anc) k"
      using fold_mro_not_declared [OF n] by simp
    also have "\<dots> = map_of anc k" using y by (simp add: map_of_dict_update map_add_def)
    finally show ?thesis .
  qed
  from a b show ?thesis by blast
qed

theorem ancestor_declaration_overrides_witness:
  "mro_ex = [Some [(''name'', Other ''int''), (''cell'', ParameterSet [(''model'', Other ''str'')])]]
              @ Some [(''name'', Other ''str'')] # [Some [], None]
   \<and> ''name'' \<in> fst ` set [(''name'', Other ''str'' :: string parameter_tree)]
   \<and> map_of (new_param_dict mro_ex) ''name'' = Some (Other ''str'')"
proof -
  have h: "mro_ex = [Some [(''name'', Other ''int''),
                          (''cell'', ParameterSet [(''model'', Other ''str'')])]]
              @ Some [(''name'', Other ''str'')] # [Some [], None]
     \<and> ''name'' \<in> fst ` set [(''name'', Other ''str'')]
     \<and> (\<forall>d. Some d \<in> set [Some [], None] \<longrightarrow> ''name'' \<notin> fst ` set (d :: (string \<times> string parameter_tree) list))"
    by (simp add: mro_ex_def)
  from ancestor_declaration_overrides [where mro = mro_ex and k = "''name''"
      and anc = "[(''name'', Other ''str'')]" and later = "[Some [], None]"
      and earlier = "[Some [(''name'', Other ''int''),
                          (''cell'', ParameterSet [(''model'', Other ''str'')])]]"] h
  have "map_of (new_param_dict mro_ex) ''name''
          = map_of [(''name'', Other ''str'' :: string parameter_tree)] ''name''"
    by blast
  with h show ?thesis by simp
qed

section \<open>Properties of the analysis data structures\<close>

subsection \<open>Identifier and tags\<close>

lemma ads_identifier:
  "AnalysisDataStructure_init kw = Inr self \<Longrightarrow> map_of kw ''identifier'' = Some (Str i)
     \<Longrightarrow> identifier self = i"
  by (auto simp: AnalysisDataStructure_init_def param_String_def split: sum.splits)

lemma ads_tags:
  "AnalysisDataStructure_init kw = Inr self \<Longrightarrow>
     tags self = (case map_of kw ''tags'' of None \<Rightarrow> [] | Some (StrList l) \<Rightarrow> l)"
  by (auto simp: AnalysisDataStructure_init_def param_List_def
      split: sum.splits option.splits kwval.splits)

lemma ads1d_identifier:
  "AnalysisDataStructure1D_init xu yu kw = Inr self \<Longrightarrow>
     map_of kw ''identifier'' = Some (Str i) \<Longrightarrow> identifier self = i"
  by (auto simp: AnalysisDataStructure1D_init_def split: if_splits sum.splits
      dest: ads_identifier)

lemma TuningCurve_identifier:
  "TuningCurve_init v s i yn yu params = Inr obj \<Longrightarrow> identifier obj = ''TuningCurve''"
  by (auto simp: TuningCurve_init_def call_kwargs_def split: if_splits sum.splits
      dest: ads_identifier [where i = "''TuningCurve''"])

lemma CyclicTuningCurve_identifier:
  "CyclicTuningCurve_init parse float p v s i yn yu params = Inr obj \<Longrightarrow>
     identifier obj = ''CyclicTuningCurve''"
  by (auto simp: CyclicTuningCurve_init_def Let_def split: sum.splits option.splits)

lemma PerNeuronValue_identifier:
  "PerNeuronValue_init v u t p params = Inr obj \<Longrightarrow> identifier obj = ''PerNeuronValue''"
  by (auto simp: PerNeuronValue_init_def call_kwargs_def split: if_splits sum.splits
      dest: ads_identifier [where i = "''PerNeuronValue''"])

lemma AnalogSignalList_identifier:
  "AnalogSignalList_init a ix xu yu params = Inr obj \<Longrightarrow>
     identifier obj = ''AnalogSignalList''"
  by (auto simp: AnalogSignalList_init_def call_kwargs_def split: if_splits sum.splits
      dest: ads1d_identifier [where i = "''AnalogSignalList''"])

lemma ConductanceSignalList_identifier:
  "ConductanceSignalList_init ec ic ix params = Inr obj \<Longrightarrow>
     identifier obj = ''ConductanceSignalList''"
  by (auto simp: ConductanceSignalList_init_def call_kwargs_def
      split: if_splits sum.splits list.splits
      dest: ads1d_identifier [where i = "''ConductanceSignalList''"])

text \<open>
  C7. Every successfully constructed concrete analysis data structure carries the
  identifier of its class: \<open>'TuningCurve'\<close>, \<open>'CyclicTuningCurve'\<close> (set after the
  constructor of the parent has set \<open>'TuningCurve'\<close>), \<open>'PerNeuronValue'\<close>,
  \<open>'AnalogSignalList'\<close> and \<open>'ConductanceSignalList'\<close>.
\<close>

theorem constructed_identifier:
  "(\<forall>obj. TuningCurve_init tv ts ti tyn tyu tparams = Inr obj
       \<longrightarrow> identifier obj = ''TuningCurve'')
   \<and> (\<forall>obj. CyclicTuningCurve_init parse float cp cv cs ci cyn cyu cparams = Inr obj
       \<longrightarrow> identifier obj = ''CyclicTuningCurve'')
   \<and> (\<forall>obj. PerNeuronValue_init pv pu pt pp pparams = Inr obj
       \<longrightarrow> identifier obj = ''PerNeuronValue'')
   \<and> (\<forall>obj. AnalogSignalList_init aa ai axu ayu aparams = Inr obj
       \<longrightarrow> identifier obj = ''AnalogSignalList'')
   \<and> (\<forall>obj. ConductanceSignalList_init ce ci' cix cparams' = Inr obj
       \<longrightarrow> identifier obj = ''ConductanceSignalList'')"
  by (intro conjI allI impI)
     (erule TuningCurve_identifier, erule CyclicTuningCurve_identifier,
      erule PerNeuronValue_identifier, erule AnalogSignalList_identifier,
      erule ConductanceSignalList_identifier)

lemma PerNeuronValue_tags:
  "PerNeuronValue_init v u t p params = Inr obj \<Longrightarrow> tags obj = []"
proof -
  assume a: "PerNeuronValue_init v u t p params = Inr obj"
  then have n: "''tags'' \<notin> set (map fst params)"
    by (auto simp: PerNeuronValue_init_def split: if_splits)
  then have m: "map_of ((''identifier'', Str ''PerNeuronValue'') # params) ''tags'' = None"
    by (simp add: map_of_eq_None_iff)
  from a obtain self where
    "AnalysisDataStructure_init ((''identifier'', Str ''PerNeuronValue'') # params) = Inr self"
    and "tags obj = tags self"
    by (auto simp: PerNeuronValue_init_def call_kwargs_def split: if_splits sum.splits)
  with ads_tags [of "(''identifier'', Str ''PerNeuronValue'') # params" self] m
  show ?thesis by simp
qed

lemma TuningCurve_tags:
  "TuningCurve_init v s i yn yu params = Inr obj \<Longrightarrow>
     map_of params ''tags'' = Some (StrList ts) \<Longrightarrow> tags obj = ts"
proof -
  assume a: "TuningCurve_init v s i yn yu params = Inr obj"
    and t: "map_of params ''tags'' = Some (StrList ts)"
  from a obtain self where
    "AnalysisDataStructure_init ((''identifier'', Str ''TuningCurve'') # params) = Inr self"
    and "tags obj = tags self"
    by (auto simp: TuningCurve_init_def call_kwargs_def split: if_splits sum.splits)
  with ads_tags [of "(''identifier'', Str ''TuningCurve'') # params" self] t
  show ?thesis by simp
qed

text \<open>
  C5. Tags supplied at creation are retained: the \<open>tags\<close> of the constructed object are
  the supplied list. This holds for the classes that take the tags in \<open>**params\<close>
  (\<open>TuningCurve_tags\<close>), and it fails for \<open>PerNeuronValue\<close>, whose constructor takes
  \<open>tags\<close> as an argument of its own and drops it (\<open>PerNeuronValue_tags\<close>): constructed with
  the tags \<open>['t1']\<close>, the object has the tags \<open>[]\<close>.
\<close>

theorem PerNeuronValue_tags_not_stored:
  "\<exists>obj. PerNeuronValue_init [1, 2 :: real] ''mV'' [''t1''] None [(''sheet_name'', Str ''V1'')]
            = Inr obj
         \<and> tags obj = [] \<and> tags obj \<noteq> [''t1'']"
  by (simp add: PerNeuronValue_init_def call_kwargs_def AnalysisDataStructure_init_def
      param_String_def param_List_def)

subsection \<open>Grouping of a tuning curve\<close>

lemma total_levels_update_None:
  "map_of d k = None \<Longrightarrow> total_levels (AList.update k (a, b) d) = total_levels d + length a"
  by (induction d) (auto simp: total_levels_def split: if_splits)

lemma total_levels_update_Some:
  "map_of d k = Some (a, b) \<Longrightarrow>
     total_levels (AList.update k (a @ [v], b') d) = Suc (total_levels d)"
  by (induction d) (auto simp: total_levels_def split: if_splits)

lemma tc_loop_groups:
  assumes "\<forall>p \<in> set rest. xvalue parse float idx (snd p) \<noteq> None"
  shows "\<exists>d'. tc_loop parse str float idx rest d = Inr d'
       \<and> (\<forall>k. map_of d' k = add_group (map_of d k) (tc_group parse str float idx rest k))
       \<and> (distinct (map fst d) \<longrightarrow> distinct (map fst d'))
       \<and> total_levels d' = total_levels d + length rest"
  using assms
proof (induction rest arbitrary: d)
  case Nil
  then show ?case by (auto simp: add_group_def tc_group_def split: option.splits)
next
  case (Cons p rest)
  obtain v s where p: "p = (v, s)" by (cases p)
  from Cons.prems p obtain val where xv: "xvalue parse float idx s = Some val" by auto
  then obtain j where j: "py_index (parameters (parse s)) idx = Some j"
    and fl: "float (parameters (parse s) ! j) = Some val"
    by (auto simp: xvalue_def split: option.splits)
  let ?key = "rekey parse str idx s"
  have key: "?key = str (ParsedStimulusId (name (parse s)) ((parameters (parse s))[j := ''x'']))"
    using j by (simp add: rekey_def)
  let ?new = "case map_of d ?key of Some (a, b) \<Rightarrow> (a @ [v], b @ [val]) | None \<Rightarrow> ([v], [val])"
  let ?d1 = "AList.update ?key ?new d"
  have step: "tc_loop parse str float idx (p # rest) d = tc_loop parse str float idx rest ?d1"
    using p j fl key by (simp add: Let_def split: option.splits)
  from Cons.prems have "\<forall>p \<in> set rest. xvalue parse float idx (snd p) \<noteq> None" by simp
  from Cons.IH [OF this, of ?d1] obtain d' where
    r: "tc_loop parse str float idx rest ?d1 = Inr d'"
    and m: "\<And>k. map_of d' k = add_group (map_of ?d1 k) (tc_group parse str float idx rest k)"
    and di: "distinct (map fst ?d1) \<longrightarrow> distinct (map fst d')"
    and to: "total_levels d' = total_levels ?d1 + length rest"
    by blast
  have m': "map_of d' k = add_group (map_of d k) (tc_group parse str float idx (p # rest) k)"
    for k
  proof (cases "k = ?key")
    case True
    then show ?thesis
      using m [of k] p xv
      by (auto simp: update_conv' add_group_def tc_group_def split: option.splits)
  next
    case False
    then show ?thesis
      using m [of k] p
      by (auto simp: update_conv' add_group_def tc_group_def split: option.splits)
  qed
  have di': "distinct (map fst d) \<longrightarrow> distinct (map fst d')"
    using di by (simp add: distinct_update)
  have "total_levels ?d1 = Suc (total_levels d)"
    by (cases "map_of d ?key")
       (auto simp: total_levels_update_None total_levels_update_Some)
  with to have to': "total_levels d' = total_levels d + length (p # rest)" by simp
  from step r m' di' to' show ?case by auto
qed


lemma numpy_array_map: "map (\<lambda>(k, (a, b)). (k, (numpy_array a, b))) d = d"
  by (induction d) (auto simp: numpy_array_def)

text \<open>
  C3. When every zipped stimulus has a number at \<open>parameter_index\<close>,
  \<open>to_dictonary_of_tc_parametrization\<close> returns a dictionary whose keys are the stimulus
  ids with the parameter at \<open>parameter_index\<close> replaced by \<open>'x'\<close>. The value of a key is
  the pair \<open>(levels, xaxis)\<close> of the tuning-curve values and of the floats of that
  parameter, for exactly the pairs \<open>(value, stimulus)\<close> whose stimulus has that key, in
  the order of the zipped pairs. Every pair is in one group only: the keys are distinct
  and the groups hold as many values as there are pairs.
\<close>

theorem tc_parametrization_groups:
  fixes self :: "('v, 'u, 'z) tuning_curve_scheme"
  assumes "\<forall>p \<in> set (zip (tuning_curve.values self) (stimuli_ids self)).
             xvalue parse float (parameter_index self) (snd p) \<noteq> None"
  shows "\<exists>d. to_dictonary_of_tc_parametrization parse str float self = Inr d
       \<and> distinct (map fst d)
       \<and> set (map fst d) = rekey parse str (parameter_index self)
                              ` snd ` set (zip (tuning_curve.values self) (stimuli_ids self))
       \<and> (\<forall>k \<in> set (map fst d).
             map_of d k = Some (tc_group parse str float (parameter_index self)
                                 (zip (tuning_curve.values self) (stimuli_ids self)) k))
       \<and> total_levels d = length (zip (tuning_curve.values self) (stimuli_ids self))"
proof -
  let ?idx = "parameter_index self"
  let ?pairs = "zip (tuning_curve.values self) (stimuli_ids self)"
  from tc_loop_groups [OF assms, of str "[]"] obtain d where
    r: "tc_loop parse str float ?idx ?pairs [] = Inr d"
    and m: "\<And>k. map_of d k = add_group None (tc_group parse str float ?idx ?pairs k)"
    and di: "distinct (map fst d)"
    and to: "total_levels d = length ?pairs"
    by (auto simp: total_levels_def)
  have res: "to_dictonary_of_tc_parametrization parse str float self = Inr d"
    by (simp add: to_dictonary_of_tc_parametrization_def r numpy_array_map)
  have keys: "k \<in> set (map fst d) \<longleftrightarrow> k \<in> rekey parse str ?idx ` snd ` set ?pairs" for k
  proof -
    have "k \<in> set (map fst d) \<longleftrightarrow> map_of d k \<noteq> None"
      by (simp add: map_of_eq_None_iff)
    also have "\<dots> \<longleftrightarrow> filter (\<lambda>p. rekey parse str ?idx (snd p) = k) ?pairs \<noteq> []"
      by (simp add: m add_group_def tc_group_def)
    also have "\<dots> \<longleftrightarrow> k \<in> rekey parse str ?idx ` snd ` set ?pairs"
      by (auto simp: filter_empty_conv)
    finally show ?thesis .
  qed
  have grp: "map_of d k = Some (tc_group parse str float ?idx ?pairs k)"
    if "k \<in> set (map fst d)" for k
  proof -
    from that have "map_of d k \<noteq> None" by (simp add: map_of_eq_None_iff)
    then show ?thesis by (simp add: m add_group_def split: if_splits)
  qed
  from keys have "set (map fst d) = rekey parse str ?idx ` snd ` set ?pairs" by blast
  with res di grp to show ?thesis by blast
qed

subsection \<open>The range check of a cyclic tuning curve\<close>

lemma float_in_range:
  "v \<noteq> NaN \<Longrightarrow> p \<noteq> NaN \<Longrightarrow>
     (\<not> float_lt v (Finite 0) \<and> \<not> float_ge v p) = (float_le (Finite 0) v \<and> float_lt v p)"
  by (cases v; cases p) (auto simp: float_le_def float_ge_def)

lemma cyclic_loop_None:
  "cyclic_loop parse float idx p ss = None \<longleftrightarrow>
     (\<forall>s \<in> set ss. \<exists>v. xvalue parse float idx s = Some v
                      \<and> \<not> float_lt v (Finite 0) \<and> \<not> float_ge v p)"
proof (induction ss)
  case Nil
  then show ?case by simp
next
  case (Cons s ss)
  show ?case
  proof (cases "py_index (parameters (parse s)) idx")
    case None
    then show ?thesis by (simp add: xvalue_def)
  next
    case (Some j)
    show ?thesis
    proof (cases "float (parameters (parse s) ! j)")
      case None
      with Some show ?thesis by (simp add: xvalue_def)
    next
      case fl: (Some v)
      with Some have xv: "xvalue parse float idx s = Some v" by (simp add: xvalue_def)
      show ?thesis
      proof (cases "float_lt v (Finite 0) \<or> float_ge v p")
        case True
        with Some fl xv show ?thesis by auto
      next
        case False
        with Some fl
        have "cyclic_loop parse float idx p (s # ss) = cyclic_loop parse float idx p ss"
          by simp
        with Cons.IH False xv show ?thesis by simp
      qed
    qed
  qed
qed

lemma cyclic_loop_ValueError:
  "\<forall>s \<in> set ss. py_index (parameters (parse s)) idx \<noteq> None \<Longrightarrow>
     cyclic_loop parse float idx p ss = Some e \<Longrightarrow> e = ValueError"
proof (induction ss)
  case Nil
  then show ?case by simp
next
  case (Cons s ss)
  from Cons.prems(1) obtain j where j: "py_index (parameters (parse s)) idx = Some j"
    by auto
  show ?case
  proof (cases "float (parameters (parse s) ! j)")
    case None
    with j Cons.prems(2) show ?thesis by simp
  next
    case (Some v)
    show ?thesis
    proof (cases "float_lt v (Finite 0) \<or> float_ge v p")
      case True
      with j Some Cons.prems(2) show ?thesis by auto
    next
      case False
      with j Some Cons.prems(2) have "cyclic_loop parse float idx p ss = Some e" by simp
      with Cons.IH Cons.prems(1) show ?thesis by simp
    qed
  qed
qed

lemma TuningCurve_fields:
  "TuningCurve_init v s i yn yu params = Inr tc \<Longrightarrow>
     stimuli_ids tc = s \<and> parameter_index tc = i \<and> tuning_curve.values tc = v"
  by (auto simp: TuningCurve_init_def split: if_splits sum.splits)

lemma CyclicTuningCurve_Inl:
  assumes "TuningCurve_init v s i yn yu params = Inr tc"
  shows "CyclicTuningCurve_init parse float p v s i yn yu params = Inl e
           \<longleftrightarrow> cyclic_loop parse float i p s = Some e"
  using assms TuningCurve_fields [OF assms]
  by (auto simp: CyclicTuningCurve_init_def Let_def split: option.splits)

lemma CyclicTuningCurve_Inr:
  assumes "CyclicTuningCurve_init parse float p v s i yn yu params = Inr c"
  shows "cyclic_loop parse float i p s = None \<and> stimuli_ids c = s \<and> parameter_index c = i
       \<and> cyclic_tuning_curve.period c = p"
proof -
  from assms obtain tc where tc: "TuningCurve_init v s i yn yu params = Inr tc"
    by (auto simp: CyclicTuningCurve_init_def split: sum.splits)
  from assms tc TuningCurve_fields [OF tc] show ?thesis
    by (auto simp: CyclicTuningCurve_init_def Let_def split: option.splits)
qed

text \<open>
  C10, as the code has it. The arguments are ones that the constructor of \<open>TuningCurve\<close>
  accepts, and every stimulus id has a parameter at \<open>parameter_index\<close>. Then the
  constructor of \<open>CyclicTuningCurve\<close> raises \<open>ValueError\<close> iff for some stimulus id
  \<open>float\<close> refuses that parameter or its float value \<open>v\<close> satisfies \<open>v < 0\<close> or
  \<open>v >= period\<close>, and it constructs the object iff every stimulus id has a float value
  \<open>v\<close> for which neither \<open>v < 0\<close> nor \<open>v >= period\<close> holds. Every constructed
  object has such a value for each of its stimulus ids, and \<open>0 <= v < period\<close> holds
  for it whenever neither \<open>v\<close> nor the period is NaN.
\<close>

theorem cyclic_tuning_curve_range:
  assumes "TuningCurve_init v s i yn yu params = Inr tc"
    and "\<forall>x \<in> set s. py_index (parameters (parse x)) i \<noteq> None"
  shows "(CyclicTuningCurve_init parse float p v s i yn yu params = Inl ValueError
            \<longleftrightarrow> (\<exists>x \<in> set s. xvalue parse float i x = None
                    \<or> (\<exists>r. xvalue parse float i x = Some r
                          \<and> (float_lt r (Finite 0) \<or> float_ge r p))))
       \<and> ((\<exists>c. CyclicTuningCurve_init parse float p v s i yn yu params = Inr c)
            \<longleftrightarrow> (\<forall>x \<in> set s. \<exists>r. xvalue parse float i x = Some r
                    \<and> \<not> float_lt r (Finite 0) \<and> \<not> float_ge r p))
       \<and> (\<forall>c. CyclicTuningCurve_init parse float p v s i yn yu params = Inr c \<longrightarrow>
             (\<forall>x \<in> set (stimuli_ids c).
                \<exists>r. xvalue parse float (parameter_index c) x = Some r
                   \<and> \<not> float_lt r (Finite 0)
                   \<and> \<not> float_ge r (cyclic_tuning_curve.period c)
                   \<and> (r \<noteq> NaN \<and> cyclic_tuning_curve.period c \<noteq> NaN
                        \<longrightarrow> float_le (Finite 0) r
                            \<and> float_lt r (cyclic_tuning_curve.period c))))"
proof -
  let ?good = "\<forall>x \<in> set s. \<exists>r. xvalue parse float i x = Some r
                 \<and> \<not> float_lt r (Finite 0) \<and> \<not> float_ge r p"
  let ?bad = "\<exists>x \<in> set s. xvalue parse float i x = None
                 \<or> (\<exists>r. xvalue parse float i x = Some r
                       \<and> (float_lt r (Finite 0) \<or> float_ge r p))"
  let ?c = "CyclicTuningCurve_init parse float p v s i yn yu params"
  have none: "cyclic_loop parse float i p s = None \<longleftrightarrow> ?good"
    by (rule cyclic_loop_None)
  have gb: "?bad \<longleftrightarrow> \<not> ?good"
  proof
    assume ?bad
    then obtain x where x: "x \<in> set s"
      and d: "xvalue parse float i x = None
              \<or> (\<exists>r. xvalue parse float i x = Some r
                    \<and> (float_lt r (Finite 0) \<or> float_ge r p))"
      by blast
    have "\<not> (\<exists>r. xvalue parse float i x = Some r
                \<and> \<not> float_lt r (Finite 0) \<and> \<not> float_ge r p)"
      using d by auto
    with x show "\<not> ?good" by blast
  next
    assume "\<not> ?good"
    then obtain x where x: "x \<in> set s"
      and n: "\<not> (\<exists>r. xvalue parse float i x = Some r
                    \<and> \<not> float_lt r (Finite 0) \<and> \<not> float_ge r p)"
      by blast
    have "xvalue parse float i x = None
          \<or> (\<exists>r. xvalue parse float i x = Some r
                \<and> (float_lt r (Finite 0) \<or> float_ge r p))"
      using n by (cases "xvalue parse float i x") auto
    with x show ?bad by blast
  qed
  have a: "?c = Inl ValueError \<longleftrightarrow> ?bad"
  proof
    assume "?c = Inl ValueError"
    with CyclicTuningCurve_Inl [OF assms(1), of parse float p ValueError]
    have "cyclic_loop parse float i p s \<noteq> None" by simp
    with none gb show ?bad by simp
  next
    assume ?bad
    with none gb obtain e where e: "cyclic_loop parse float i p s = Some e" by auto
    from cyclic_loop_ValueError [OF assms(2) e] e
    have "cyclic_loop parse float i p s = Some ValueError" by simp
    with CyclicTuningCurve_Inl [OF assms(1), of parse float p ValueError]
    show "?c = Inl ValueError" by simp
  qed
  have b: "(\<exists>c. ?c = Inr c) \<longleftrightarrow> ?good"
  proof
    assume "\<exists>c. ?c = Inr c"
    then obtain c where "?c = Inr c" by blast
    from CyclicTuningCurve_Inr [OF this] none show ?good by simp
  next
    assume g: ?good
    show "\<exists>c. ?c = Inr c"
    proof (cases ?c)
      case (Inl e)
      with CyclicTuningCurve_Inl [OF assms(1), of parse float p e] none g
      show ?thesis by simp
    next
      case (Inr c)
      then show ?thesis by blast
    qed
  qed
  have c: "\<forall>x \<in> set (stimuli_ids c).
             \<exists>r. xvalue parse float (parameter_index c) x = Some r
                \<and> \<not> float_lt r (Finite 0)
                \<and> \<not> float_ge r (cyclic_tuning_curve.period c)
                \<and> (r \<noteq> NaN \<and> cyclic_tuning_curve.period c \<noteq> NaN
                     \<longrightarrow> float_le (Finite 0) r
                         \<and> float_lt r (cyclic_tuning_curve.period c))"
    if "?c = Inr c" for c
  proof
    fix x
    assume "x \<in> set (stimuli_ids c)"
    with CyclicTuningCurve_Inr [OF that] none
    obtain r where r: "xvalue parse float i x = Some r"
      and l: "\<not> float_lt r (Finite 0)" and g: "\<not> float_ge r p"
      by auto
    from l g float_in_range [of r p]
    have "r \<noteq> NaN \<and> p \<noteq> NaN \<longrightarrow> float_le (Finite 0) r \<and> float_lt r p" by simp
    with r l g CyclicTuningCurve_Inr [OF that]
    show "\<exists>r. xvalue parse float (parameter_index c) x = Some r
                \<and> \<not> float_lt r (Finite 0)
                \<and> \<not> float_ge r (cyclic_tuning_curve.period c)
                \<and> (r \<noteq> NaN \<and> cyclic_tuning_curve.period c \<noteq> NaN
                     \<longrightarrow> float_le (Finite 0) r
                         \<and> float_lt r (cyclic_tuning_curve.period c))"
      by simp
  qed
  from a b c show ?thesis by blast
qed



lemmas init_defs = TuningCurve_init_def call_kwargs_def AnalysisDataStructure_init_def
  param_String_def param_List_def

lemma tc_ex_fields:
  "tuning_curve.values tc_ex = [10, 20, 30, 40] \<and> stimuli_ids tc_ex = [''G01'', ''G12'', ''G21'']
   \<and> parameter_index tc_ex = 0"
  by (simp add: tc_ex_def init_defs)

lemmas ex_defs = xvalue_def rekey_def parse_ex_def str_ex_def float_ex_def py_index_def

theorem tc_parametrization_groups_witness:
  "to_dictonary_of_tc_parametrization parse_ex str_ex float_ex tc_ex
     = Inr [(''Gx1'', [10, 30], [Finite 0, Finite 2]), (''Gx2'', [20], [Finite 1])]
   \<and> (\<exists>d. to_dictonary_of_tc_parametrization parse_ex str_ex float_ex tc_ex = Inr d
          \<and> distinct (map fst d) \<and> total_levels d = 3)"
proof -
  have h: "\<forall>p \<in> set (zip (tuning_curve.values tc_ex) (stimuli_ids tc_ex)).
             xvalue parse_ex float_ex (parameter_index tc_ex) (snd p) \<noteq> None"
    by (simp add: tc_ex_fields ex_defs)
  have e: "to_dictonary_of_tc_parametrization parse_ex str_ex float_ex tc_ex
     = Inr [(''Gx1'', [10, 30], [Finite 0, Finite 2]), (''Gx2'', [20], [Finite 1])]"
    by (simp add: to_dictonary_of_tc_parametrization_def tc_ex_fields ex_defs numpy_array_def)
  from tc_parametrization_groups [OF h, of str_ex] obtain d where
    d: "to_dictonary_of_tc_parametrization parse_ex str_ex float_ex tc_ex = Inr d"
    and di: "distinct (map fst d)"
    and to: "total_levels d = length (zip (tuning_curve.values tc_ex) (stimuli_ids tc_ex))"
    by blast
  from to have "total_levels d = 3" by (simp add: tc_ex_fields)
  with d di e show ?thesis by blast
qed

theorem cyclic_tuning_curve_range_witness:
  "(\<exists>c. CyclicTuningCurve_init parse_ex float_ex (Finite 3) [10 :: int, 20, 30]
          [''G01'', ''G12'', ''G21''] 0 ''y'' ''Hz'' [] = Inr c)
   \<and> CyclicTuningCurve_init parse_ex float_ex (Finite 2) [10 :: int, 20, 30]
          [''G01'', ''G12'', ''G21''] 0 ''y'' ''Hz'' [] = Inl ValueError"
proof -
  have t: "TuningCurve_init [10 :: int, 20, 30] [''G01'', ''G12'', ''G21''] 0 ''y'' ''Hz'' []
             = Inr (projr (TuningCurve_init [10 :: int, 20, 30] [''G01'', ''G12'', ''G21'']
                             0 ''y'' ''Hz'' []))"
    by (simp add: init_defs)
  have w: "\<forall>x \<in> set [''G01'', ''G12'', ''G21''].
             py_index (parameters (parse_ex x)) 0 \<noteq> None"
    by (simp add: ex_defs)
  have g3: "\<forall>x \<in> set [''G01'', ''G12'', ''G21''].
               \<exists>r. xvalue parse_ex float_ex 0 x = Some r
                  \<and> \<not> float_lt r (Finite 0) \<and> \<not> float_ge r (Finite 3)"
    by (simp add: ex_defs float_ge_def float_le_def)
  have b2: "\<exists>x \<in> set [''G01'', ''G12'', ''G21''].
               xvalue parse_ex float_ex 0 x = None
               \<or> (\<exists>r. xvalue parse_ex float_ex 0 x = Some r
                     \<and> (float_lt r (Finite 0) \<or> float_ge r (Finite 2)))"
    by (simp add: ex_defs float_ge_def float_le_def)
  from cyclic_tuning_curve_range [OF t w, of float_ex "Finite 3"] g3
  have "\<exists>c. CyclicTuningCurve_init parse_ex float_ex (Finite 3) [10 :: int, 20, 30]
               [''G01'', ''G12'', ''G21''] 0 ''y'' ''Hz'' [] = Inr c" by blast
  moreover from cyclic_tuning_curve_range [OF t w, of float_ex "Finite 2"] b2
  have "CyclicTuningCurve_init parse_ex float_ex (Finite 2) [10 :: int, 20, 30]
               [''G01'', ''G12'', ''G21''] 0 ''y'' ''Hz'' [] = Inl ValueError" by blast
  ultimately show ?thesis by blast
qed

text \<open>
  Two inputs at which the range check does not do what its reading over the real numbers
  suggests. With the stimulus id \<open>'nan'\<close> and the period 3 the object is constructed,
  though \<open>0 <= v\<close> is false for its value NaN. With the stimulus id \<open>'a'\<close>
  \<open>ValueError\<close> is raised, by \<open>float\<close>, though no stimulus id has a float value at all.
\<close>

theorem cyclic_tuning_curve_range_counterexample:
  "\<not> isl (CyclicTuningCurve_init parse_one float_lit (Finite 3) [10 :: int] [''nan''] 0
             ''y'' ''Hz'' [])
   \<and> stimuli_ids (projr (CyclicTuningCurve_init parse_one float_lit (Finite 3) [10 :: int]
                           [''nan''] 0 ''y'' ''Hz'' [])) = [''nan'']
   \<and> parameter_index (projr (CyclicTuningCurve_init parse_one float_lit (Finite 3)
                               [10 :: int] [''nan''] 0 ''y'' ''Hz'' [])) = 0
   \<and> cyclic_tuning_curve.period
        (projr (CyclicTuningCurve_init parse_one float_lit (Finite 3) [10 :: int] [''nan''] 0
                  ''y'' ''Hz'' [])) = Finite 3
   \<and> xvalue parse_one float_lit 0 ''nan'' = Some NaN
   \<and> \<not> float_le (Finite 0) NaN
   \<and> \<not> float_lt NaN (Finite 3)
   \<and> CyclicTuningCurve_init parse_one float_lit (Finite 3) [10 :: int] [''a''] 0
        ''y'' ''Hz'' [] = Inl ValueError
   \<and> xvalue parse_one float_lit 0 ''a'' = None"
  by (simp add: CyclicTuningCurve_init_def init_defs ex_defs parse_one_def float_lit_def
      float_le_def float_ge_def)


theorem constructed_identifier_witness:
  "(\<exists>obj. TuningCurve_init [10 :: int] [''G01''] 0 ''y'' ''Hz'' [(''tags'', StrList [''a''])]
            = Inr obj \<and> identifier obj = ''TuningCurve'')
   \<and> (\<exists>obj. CyclicTuningCurve_init parse_ex float_ex (Finite 3) [10 :: int] [''G01''] 0 ''y'' ''Hz'' []
            = Inr obj \<and> identifier obj = ''CyclicTuningCurve'')
   \<and> (\<exists>obj. PerNeuronValue_init [1 :: int, 2] ''mV'' [''t1''] None [(''sheet_name'', Str ''V1'')]
            = Inr obj \<and> identifier obj = ''PerNeuronValue'')
   \<and> (\<exists>obj. AnalogSignalList_init [1 :: int] [0] ''ms'' ''mV'' [(''sheet_name'', Str ''V1'')]
            = Inr obj \<and> identifier obj = ''AnalogSignalList'')
   \<and> (\<exists>obj. ConductanceSignalList_init [\<lparr>units = ''nS'', sampling_rate_units = ''Hz''\<rparr>]
              [\<lparr>units = ''nS'', sampling_rate_units = ''Hz''\<rparr>] [0] [] = Inr obj
            \<and> identifier obj = ''ConductanceSignalList'')"
proof -
  obtain o1 where o1: "TuningCurve_init [10 :: int] [''G01''] 0 ''y'' ''Hz''
      [(''tags'', StrList [''a''])] = Inr o1"
    by (simp add: init_defs)
  obtain o2 where o2: "CyclicTuningCurve_init parse_ex float_ex (Finite 3) [10 :: int] [''G01''] 0 ''y''
      ''Hz'' [] = Inr o2"
    by (simp add: CyclicTuningCurve_init_def init_defs ex_defs float_ge_def float_le_def)
  obtain o3 where o3: "PerNeuronValue_init [1 :: int, 2] ''mV'' [''t1''] None
      [(''sheet_name'', Str ''V1'')] = Inr o3"
    by (simp add: PerNeuronValue_init_def init_defs)
  obtain o4 where o4: "AnalogSignalList_init [1 :: int] [0] ''ms'' ''mV''
      [(''sheet_name'', Str ''V1'')] = Inr o4"
    by (simp add: AnalogSignalList_init_def AnalysisDataStructure1D_init_def init_defs)
  obtain o5 where o5: "ConductanceSignalList_init [\<lparr>units = ''nS'', sampling_rate_units = ''Hz''\<rparr>]
              [\<lparr>units = ''nS'', sampling_rate_units = ''Hz''\<rparr>] [0] [] = Inr o5"
    by (simp add: ConductanceSignalList_init_def AnalysisDataStructure1D_init_def init_defs)
  note c = constructed_identifier [where tv = "[10 :: int]" and ts = "[''G01'']" and ti = 0
      and tyn = "''y''" and tyu = "''Hz''" and tparams = "[(''tags'', StrList [''a''])]"
      and parse = parse_ex and float = float_ex and cp = "Finite 3" and cv = "[10 :: int]"
      and cs = "[''G01'']" and ci = 0 and cyn = "''y''" and cyu = "''Hz''" and cparams = "[]"
      and pv = "[1 :: int, 2]" and pu = "''mV''" and pt = "[''t1'']" and pp = None
      and pparams = "[(''sheet_name'', Str ''V1'')]"
      and aa = "[1 :: int]" and ai = "[0]" and axu = "''ms''" and ayu = "''mV''"
      and aparams = "[(''sheet_name'', Str ''V1'')]"
      and ce = "[\<lparr>units = ''nS'', sampling_rate_units = ''Hz''\<rparr>]"
      and ci' = "[\<lparr>units = ''nS'', sampling_rate_units = ''Hz''\<rparr>]" and cix = "[0]"
      and cparams' = "[]"]
  note i1 = c [THEN conjunct1, rule_format, OF o1]
  note i2 = c [THEN conjunct2, THEN conjunct1, rule_format, OF o2]
  note i3 = c [THEN conjunct2, THEN conjunct2, THEN conjunct1, rule_format, OF o3]
  note i4 = c [THEN conjunct2, THEN conjunct2, THEN conjunct2, THEN conjunct1, rule_format,
      OF o4]
  note i5 = c [THEN conjunct2, THEN conjunct2, THEN conjunct2, THEN conjunct2, rule_format,
      OF o5]
  from o1 i1 have "\<exists>obj. TuningCurve_init [10 :: int] [''G01''] 0 ''y'' ''Hz''
      [(''tags'', StrList [''a''])] = Inr obj \<and> identifier obj = ''TuningCurve''"
    by (intro exI conjI)
  moreover from o2 i2 have "\<exists>obj. CyclicTuningCurve_init parse_ex float_ex (Finite 3) [10 :: int]
      [''G01''] 0 ''y'' ''Hz'' [] = Inr obj \<and> identifier obj = ''CyclicTuningCurve''"
    by (intro exI conjI)
  moreover from o3 i3 have "\<exists>obj. PerNeuronValue_init [1 :: int, 2] ''mV'' [''t1''] None
      [(''sheet_name'', Str ''V1'')] = Inr obj \<and> identifier obj = ''PerNeuronValue''"
    by (intro exI conjI)
  moreover from o4 i4 have "\<exists>obj. AnalogSignalList_init [1 :: int] [0] ''ms'' ''mV''
      [(''sheet_name'', Str ''V1'')] = Inr obj \<and> identifier obj = ''AnalogSignalList''"
    by (intro exI conjI)
  moreover from o5 i5 have "\<exists>obj. ConductanceSignalList_init
      [\<lparr>units = ''nS'', sampling_rate_units = ''Hz''\<rparr>]
      [\<lparr>units = ''nS'', sampling_rate_units = ''Hz''\<rparr>] [0] [] = Inr obj
      \<and> identifier obj = ''ConductanceSignalList''"
    by (intro exI conjI)
  ultimately show ?thesis by (intro conjI)
qed

end
